theory Spec2Isabelle
  imports Main "HOL-Library.AList"
begin

section \<open>Egg: syntax trees\<close>

text \<open>
  The parser describes a program with expression objects. An object of type
  \<^verbatim>\<open>"value"\<close> holds a literal string or number, one of type
  \<^verbatim>\<open>"valid identifier"\<close> holds a name, and one of type \<^verbatim>\<open>"apply"\<close> holds an
  operator expression and the array of argument expressions.

  A number literal is built with the host's \<^verbatim>\<open>Number(...)\<close> from a string of decimal
  digits. The host's numbers are doubles: the literal is the double nearest to the number
  that the digits denote. That double is an integer, which \<open>NumberLit\<close> carries, or,
  beyond the largest double, the host's \<^verbatim>\<open>Infinity\<close>.
\<close>

datatype lit = NumberLit int | InfinityLit | StringLit string

datatype expr = Value lit | Identifier string | Apply expr "expr list"

text \<open>
  The exceptions that the interpreter throws, with their messages, and
  \<open>HostTypeError\<close>, the TypeError that the host itself throws when a property of
  \<^verbatim>\<open>undefined\<close> is read (its message is the engine's). \<open>Unmodelled\<close> is not an
  exception: it ends a run that has left Egg for the objects of the host, of which only a
  small part is described below. \<open>OutOfFuel\<close> marks an evaluation cut off by the step
  bound of the evaluator.
\<close>

datatype error =
    SyntaxError string
  | ReferenceError string
  | TypeError string
  | HostTypeError
  | Unmodelled
  | OutOfFuel

section \<open>The parser\<close>

text \<open>
  A host string is a sequence of code units; a \<^typ>\<open>char\<close> stands for a code unit below
  256. The character classes of the regular expressions, on these code units:
  \<^verbatim>\<open>\s\<close> is tab, line feed, vertical tab, form feed, carriage return, space and the
  no-break space; \<^verbatim>\<open>\d\<close> is \<^verbatim>\<open>[0-9]\<close>; a word character (for \<^verbatim>\<open>\b\<close>) is
  \<^verbatim>\<open>[A-Za-z0-9_]\<close>.
\<close>

definition is_space :: "char \<Rightarrow> bool" where
  "is_space c \<longleftrightarrow> c \<in> set [CHR 0x09, CHR 0x0A, CHR 0x0B, CHR 0x0C, CHR 0x0D, CHR 0x20, CHR 0xA0]"

definition is_digit :: "char \<Rightarrow> bool" where
  "is_digit c \<longleftrightarrow> c \<in> set ''0123456789''"

definition is_word :: "char \<Rightarrow> bool" where
  "is_word c \<longleftrightarrow> c \<in> set ''ABCDEFGHIJKLMNOPQRSTUVWXYZabcdefghijklmnopqrstuvwxyz0123456789_''"

text \<open>The double quote character.\<close>

definition dquote :: char where
  "dquote = CHR 0x22"

text \<open>
  The characters admitted by \<^verbatim>\<open>[^\s(),#"]\<close>, the class of the identifier expression.
\<close>

definition is_ident_char :: "char \<Rightarrow> bool" where
  "is_ident_char c \<longleftrightarrow> \<not> is_space c \<and> c \<notin> set ''(),#'' \<and> c \<noteq> dquote"

text \<open>
  \<^verbatim>\<open>string.search(/\S/)\<close> finds the first character that is not whitespace; the
  string is cut there, and a string of whitespace only becomes empty.
\<close>

definition skipSpace :: "string \<Rightarrow> string" where
  "skipSpace string = dropWhile is_space string"

text \<open>
  \<^verbatim>\<open>/^"([^"]*)"/\<close>: an opening quote, the longest run of characters other than a
  quote, and a closing quote. The result is the group \<^verbatim>\<open>match[1]\<close>; the whole match
  \<^verbatim>\<open>match[0]\<close> is two characters longer.
\<close>

definition match_string :: "string \<Rightarrow> string option" where
  "match_string program =
     (case program of
        [] \<Rightarrow> None
      | c # cs \<Rightarrow>
          if c = dquote \<and> dropWhile (\<lambda>c. c \<noteq> dquote) cs \<noteq> []
          then Some (takeWhile (\<lambda>c. c \<noteq> dquote) cs) else None)"

text \<open>
  \<^verbatim>\<open>/^\d+\b/\<close>: the digits are followed by a word boundary. After a digit the boundary
  holds at the end of the input or before a character that is not a word character. Giving
  back digits never helps, since between two digits there is no boundary: the expression
  matches all the leading digits or nothing.
\<close>

definition match_number :: "string \<Rightarrow> string option" where
  "match_number program =
     (let ds = takeWhile is_digit program; rest = dropWhile is_digit program
      in if ds \<noteq> [] \<and> (rest = [] \<or> \<not> is_word (hd rest)) then Some ds else None)"

text \<open>\<^verbatim>\<open>/^[^\s(),#"]+/\<close>: the longest nonempty run of admitted characters.\<close>

definition match_identifier :: "string \<Rightarrow> string option" where
  "match_identifier program =
     (let name = takeWhile is_ident_char program
      in if name \<noteq> [] then Some name else None)"

text \<open>The number that a string of decimal digits denotes.\<close>

definition digit_value :: "char \<Rightarrow> int" where
  "digit_value c = int (of_char c) - 48"

definition decimal :: "string \<Rightarrow> int" where
  "decimal ds = foldl (\<lambda>n c. 10 * n + digit_value c) 0 ds"

text \<open>
  The double nearest to a natural number, with a tie going to the even significand. Up to
  \<open>2 ^ 53\<close> it is the number itself. Above, a double has a significand \<open>q\<close> of 53
  bits and is \<open>q * 2 ^ e\<close>; the largest is \<open>(2 ^ 53 - 1) * 2 ^ 971\<close>, and what rounds
  to \<open>2 ^ 1024\<close> or more is \<^verbatim>\<open>Infinity\<close> (\<open>None\<close>).
\<close>

function bit_length :: "int \<Rightarrow> nat" where
  "bit_length n = (if n \<le> 0 then 0 else Suc (bit_length (n div 2)))"
  by pat_completeness auto
termination
  by (relation "measure nat") auto

declare bit_length.simps [simp del]

definition round_double :: "int \<Rightarrow> int option" where
  "round_double n =
     (if n < 2 ^ 53 then Some n
      else
        (let e = bit_length n - 53;
             q = n div 2 ^ e;
             r = n mod 2 ^ e;
             half = 2 ^ (e - 1);
             q' = (if half < r \<or> (r = half \<and> odd q) then q + 1 else q)
         in if 2 ^ 1024 \<le> q' * 2 ^ e then None else Some (q' * 2 ^ e)))"

text \<open>\<^verbatim>\<open>Number(match[0])\<close> on a string of decimal digits.\<close>

definition Number_of :: "string \<Rightarrow> lit" where
  "Number_of ds =
     (case round_double (decimal ds) of
        Some n \<Rightarrow> NumberLit n
      | None \<Rightarrow> InfinityLit)"

text \<open>
  \<open>parseExpression\<close> reads one atom and hands it to \<open>parseApply\<close>, which reads any
  number of parenthesised argument lists after it. \<open>parseArgs\<close> is the \<^verbatim>\<open>while\<close> loop
  of \<open>parseApply\<close>: it is entered after the opening parenthesis with the arguments read so
  far, and returns them with the program text at the closing parenthesis. \<^verbatim>\<open>program[0]\<close>
  of an empty string is \<^verbatim>\<open>undefined\<close>, which differs from every character.
\<close>

function parseExpression :: "string \<Rightarrow> error + expr \<times> string"
  and parseApply :: "expr \<Rightarrow> string \<Rightarrow> error + expr \<times> string"
  and parseArgs :: "expr list \<Rightarrow> string \<Rightarrow> error + expr list \<times> string"
where
  "parseExpression program0 =
     (let program = skipSpace program0 in
      case match_string program of
        Some s \<Rightarrow> parseApply (Value (StringLit s)) (drop (length s + 2) program)
      | None \<Rightarrow>
         (case match_number program of
            Some ds \<Rightarrow> parseApply (Value (Number_of ds)) (drop (length ds) program)
          | None \<Rightarrow>
             (case match_identifier program of
                Some name \<Rightarrow> parseApply (Identifier name) (drop (length name) program)
              | None \<Rightarrow>
                  Inl (SyntaxError (''Unexpected syntax: '' @
                        (if program = [] then ''you typed nothing'' else program))))))"
| "parseApply expr program0 =
     (let program = skipSpace program0 in
      if take 1 program \<noteq> ''('' then Inr (expr, program)
      else
        (case parseArgs [] (skipSpace (drop 1 program)) of
           Inl e \<Rightarrow> Inl e
         | Inr (args, program') \<Rightarrow> parseApply (Apply expr args) (drop 1 program')))"
| "parseArgs args program =
     (if take 1 program \<noteq> '')'' then
        (case parseExpression program of
           Inl e \<Rightarrow> Inl e
         | Inr (arg, rest) \<Rightarrow>
            (let program' = skipSpace rest in
             if take 1 program' = '','' then
               parseArgs (args @ [arg]) (skipSpace (drop 1 program'))
             else if take 1 program' \<noteq> '')'' then
               Inl (SyntaxError (''Expected ',' or ')'' @ [CHR 0x27]))
             else parseArgs (args @ [arg]) program'))
      else Inr (args, program))"
  by pat_completeness auto

text \<open>
  For comparison with \<open>is_ident_char\<close>: the characters that the specification admits in
  an identifier, every character but whitespace and \<^verbatim>\<open>( ) , #\<close>.
\<close>

definition claimed_identifier_char :: "char \<Rightarrow> bool" where
  "claimed_identifier_char c \<longleftrightarrow> \<not> is_space c \<and> c \<notin> set ''(),#''"

text \<open>
  \<open>parse\<close> checks that nothing but whitespace follows the expression.
\<close>

definition parse :: "string \<Rightarrow> error + expr" where
  "parse program =
     (case parseExpression program of
        Inl e \<Rightarrow> Inl e
      | Inr (expr, rest) \<Rightarrow>
          if length (skipSpace rest) > 0
          then Inl (SyntaxError (''Unexpected text after program: '' @ rest))
          else Inr expr)"

section \<open>Values, scopes and the state of the host\<close>

text \<open>
  The values an Egg program computes with are values of the host. \<open>Num n\<close> is the
  double whose value is the integer \<open>n\<close> (positive zero for 0); \<open>NegZero\<close> and
  \<open>Infinity\<close> are the host's negative zero and positive infinity; \<open>OtherNum c\<close>
  stands for any other double (a fraction, negative infinity or NaN), named by a code
  \<open>c\<close> of which nothing is assumed. \<open>Undefined\<close> is the host's \<^verbatim>\<open>undefined\<close>.
  \<open>Array\<close> is a host array; no built-in changes an array after its creation, so an
  array is its sequence of elements. \<open>Native f\<close> is the function that \<open>topScope\<close>
  binds to the name \<open>f\<close>, and \<open>Closure params body scope\<close> is a function made by the
  form \<^verbatim>\<open>fun\<close>: it holds the parameter names, the body and a reference to the scope
  object of its creation.

  Two more values are objects of the host that a program can reach, since the built-in
  \<^verbatim>\<open>element\<close> reads any property of any value: \<open>HostFunction\<close> is the host's
  constructor \<^verbatim>\<open>Function\<close>, which every function has as its property
  \<^verbatim>\<open>constructor\<close>, and \<open>HostCode name n\<close> is the function that \<^verbatim>\<open>Function\<close> makes
  from the text \<^verbatim>\<open>topScope.name = n\<close>.
\<close>

type_synonym addr = nat

datatype val =
    Num int
  | NegZero
  | Infinity
  | OtherNum nat
  | Str string
  | Bool bool
  | Undefined
  | Array "val list"
  | Native string
  | Closure "string list" expr addr
  | HostFunction
  | HostCode string int

text \<open>
  The seven operators of the host accept all values and always return a number, a string
  or a boolean. Where the result is not determined below (fractions, coercions between
  kinds of values, the identity of arrays and functions), it is what the host says: the
  state carries the host's answers as a function \<open>host\<close> of the operator and the
  operands, of which nothing is assumed, and a count \<open>ticks\<close> of the questions asked so
  far, so that the same question may get different answers at different times.
\<close>

datatype prim =
    NumP int
  | NegZeroP
  | InfinityP
  | OtherNumP nat
  | StrP string
  | BoolP bool

fun prim_val :: "prim \<Rightarrow> val" where
  "prim_val (NumP n) = Num n"
| "prim_val NegZeroP = NegZero"
| "prim_val InfinityP = Infinity"
| "prim_val (OtherNumP c) = OtherNum c"
| "prim_val (StrP s) = Str s"
| "prim_val (BoolP b) = Bool b"

type_synonym host_answers = "nat \<Rightarrow> string \<Rightarrow> val \<Rightarrow> val \<Rightarrow> prim"

text \<open>
  A scope is a host object made by \<^verbatim>\<open>Object.create\<close>: its own properties, in the order
  of their creation, and its prototype. Scope objects are shared and mutated, so they live
  in a store of objects indexed by address; \<open>fresh\<close> is the first address not in use.
  \<open>console\<close> collects what \<^verbatim>\<open>console.log\<close> was given. \<open>host_reads\<close> counts the
  times \<^verbatim>\<open>element\<close> has read a property by a name of the program's choice, which may
  be a property that a value inherits from the host.
\<close>

record scope_obj =
  bindings :: "(string \<times> val) list"
  parent :: "addr option"

record state =
  heap :: "addr \<Rightarrow> scope_obj"
  fresh :: addr
  console :: "val list"
  host :: host_answers
  ticks :: nat
  host_reads :: nat

text \<open>
  An evaluation ends with a value or with an exception, and in both cases leaves a state
  behind: what was bound and printed before an exception stays bound and printed.
\<close>

type_synonym outcome = "(error + val) \<times> state"
type_synonym evaluator = "expr \<Rightarrow> addr \<Rightarrow> state \<Rightarrow> outcome"

text \<open>
  \<open>topScope\<close> is the first object made, without a prototype.
\<close>

definition topScope :: addr where
  "topScope = 0"

text \<open>\<^verbatim>\<open>Object.create(proto)\<close>: a new object without own properties.\<close>

definition Object_create :: "addr option \<Rightarrow> state \<Rightarrow> addr \<times> state" where
  "Object_create proto st =
     (fresh st,
      st\<lparr>heap := (heap st)(fresh st := \<lparr>bindings = [], parent = proto\<rparr>),
         fresh := Suc (fresh st)\<rparr>)"

text \<open>
  \<^verbatim>\<open>name in scope\<close> and \<^verbatim>\<open>scope[name]\<close> look for the property in the object and then
  along its prototypes; \<open>None\<close> is an absent property. The host only makes an object
  from a prototype that exists already, so a prototype has a smaller address than its heir;
  the search relies on that to end.
\<close>

function get_property :: "(addr \<Rightarrow> scope_obj) \<Rightarrow> addr \<Rightarrow> string \<Rightarrow> val option" where
  "get_property h a name =
     (case map_of (bindings (h a)) name of
        Some v \<Rightarrow> Some v
      | None \<Rightarrow>
         (case parent (h a) of
            None \<Rightarrow> None
          | Some p \<Rightarrow> if p < a then get_property h p name else None))"
  by pat_completeness auto
termination
  by (relation "measure (\<lambda>(h, a, name). a)") auto

declare get_property.simps [simp del]

text \<open>
  \<^verbatim>\<open>scope[name] = value\<close>: no prototype of a scope has a setter or a read-only property
  (the chain ends in \<^verbatim>\<open>Object.create(null)\<close>), so the assignment creates or overwrites
  an own property of the object itself.
\<close>

definition set_property :: "addr \<Rightarrow> string \<Rightarrow> val \<Rightarrow> state \<Rightarrow> state" where
  "set_property a name v st =
     st\<lparr>heap := (heap st)
           (a := (heap st a)\<lparr>bindings := AList.update name v (bindings (heap st a))\<rparr>)\<rparr>"

section \<open>The built-in functions\<close>

text \<open>A host function called with too few arguments sees \<^verbatim>\<open>undefined\<close> for the rest.\<close>

definition nth_arg :: "val list \<Rightarrow> nat \<Rightarrow> val" where
  "nth_arg vs i = (if i < length vs then vs ! i else Undefined)"

definition safe_int :: "int \<Rightarrow> bool" where
  "safe_int n \<longleftrightarrow> - (2 ^ 53) \<le> n \<and> n \<le> 2 ^ 53"

definition exact_result :: "int \<Rightarrow> val option" where
  "exact_result n = (if safe_int n then Some (Num n) else None)"

text \<open>
  \<^verbatim>\<open>Function("a, b", `return a ${op} b`)\<close> for the seven operators, where the result is
  determined here (\<open>None\<close> where it is not). Two integers compare as integers. The sum,
  difference and product of two integers of magnitude at most \<open>2 ^ 53\<close> is exact when it
  is in that range too, except a product that is zero with a negative factor (the host's
  negative zero); a quotient is exact when the division leaves no remainder, except a zero
  divided by a negative number. On two strings \<^verbatim>\<open>+\<close> concatenates and \<^verbatim>\<open>==\<close> compares;
  on two booleans \<^verbatim>\<open>==\<close> compares.
\<close>

fun binary_operator :: "string \<Rightarrow> val \<Rightarrow> val \<Rightarrow> val option" where
  "binary_operator op (Num a) (Num b) =
     (if op = ''=='' then Some (Bool (a = b))
      else if op = ''<'' then Some (Bool (a < b))
      else if op = ''>'' then Some (Bool (a > b))
      else if \<not> (safe_int a \<and> safe_int b) then None
      else if op = ''+'' then exact_result (a + b)
      else if op = ''-'' then exact_result (a - b)
      else if op = ''*'' then
        (if a * b = 0 \<and> (a < 0 \<or> b < 0) then None else exact_result (a * b))
      else if op = ''/'' then
        (if b \<noteq> 0 \<and> a mod b = 0 \<and> \<not> (a = 0 \<and> b < 0) then Some (Num (a div b))
         else None)
      else None)"
| "binary_operator op (Str a) (Str b) =
     (if op = ''+'' then Some (Str (a @ b))
      else if op = ''=='' then Some (Bool (a = b))
      else None)"
| "binary_operator op (Bool a) (Bool b) =
     (if op = ''=='' then Some (Bool (a = b)) else None)"
| "binary_operator op _ _ = None"

text \<open>The answer of the host to an operation that is not determined above.\<close>

definition host_result :: "string \<Rightarrow> val \<Rightarrow> val \<Rightarrow> state \<Rightarrow> outcome" where
  "host_result op a b st =
     (Inr (prim_val (host st (ticks st) op a b)), st\<lparr>ticks := Suc (ticks st)\<rparr>)"

text \<open>\<^verbatim>\<open>typeof op == "function"\<close>\<close>

fun is_function :: "val \<Rightarrow> bool" where
  "is_function (Native f) = True"
| "is_function (Closure params body scope) = True"
| "is_function HostFunction = True"
| "is_function (HostCode name n) = True"
| "is_function _ = False"

text \<open>
  The number of declared parameters of the functions bound in \<open>topScope\<close>: two for the
  operators and \<^verbatim>\<open>(array, n) => ...\<close>, one for \<^verbatim>\<open>(value) => ...\<close> and
  \<^verbatim>\<open>(array) => ...\<close>, none for \<^verbatim>\<open>(...values) => ...\<close>.
\<close>

definition native_arity :: "string \<Rightarrow> int" where
  "native_arity f =
     (if f \<in> set [''print'', ''length''] then 1 else if f = ''array'' then 0 else 2)"

text \<open>
  \<^verbatim>\<open>array.length\<close>: the element count of an array, the length of a string, the number
  of declared parameters of a function (none for \<^verbatim>\<open>function () {...}\<close>, the functions
  made by \<^verbatim>\<open>fun\<close>, and for the function made from a text; one for \<^verbatim>\<open>Function\<close>),
  \<^verbatim>\<open>undefined\<close> on a number or a boolean; on \<^verbatim>\<open>undefined\<close> the host throws its
  TypeError.
\<close>

fun js_length :: "val \<Rightarrow> error + val" where
  "js_length (Array xs) = Inr (Num (int (length xs)))"
| "js_length (Str s) = Inr (Num (int (length s)))"
| "js_length Undefined = Inl HostTypeError"
| "js_length (Native f) = Inr (Num (native_arity f))"
| "js_length (Closure params body scope) = Inr (Num 0)"
| "js_length HostFunction = Inr (Num 1)"
| "js_length (HostCode name n) = Inr (Num 0)"
| "js_length _ = Inr Undefined"

text \<open>
  \<^verbatim>\<open>array[n]\<close> turns \<open>n\<close> into the name of a property. \<open>key_index\<close> is the index
  that the name denotes: of a number that is a natural number (negative zero is named
  \<^verbatim>\<open>0\<close>), and of a string that is the decimal form of a natural number.
\<close>

fun key_index :: "val \<Rightarrow> int option" where
  "key_index (Num n) = (if 0 \<le> n then Some n else None)"
| "key_index NegZero = Some 0"
| "key_index (Str s) =
     (if s \<noteq> [] \<and> list_all is_digit s \<and> (length s = 1 \<or> hd s \<noteq> CHR ''0'')
      then Some (decimal s) else None)"
| "key_index _ = None"

text \<open>
  The keys whose name is a number, \<^verbatim>\<open>true\<close>, \<^verbatim>\<open>false\<close> or \<^verbatim>\<open>undefined\<close>: no
  object of the host has a property of such a name, but an array or a string at an index.
\<close>

fun names_no_property :: "val \<Rightarrow> bool" where
  "names_no_property (Num n) = True"
| "names_no_property NegZero = True"
| "names_no_property Infinity = True"
| "names_no_property (OtherNum c) = True"
| "names_no_property (Bool b) = True"
| "names_no_property Undefined = True"
| "names_no_property (Str s) = (key_index (Str s) \<noteq> None)"
| "names_no_property _ = False"

text \<open>The element of an array and the character of a string at an index.\<close>

fun at_index :: "val \<Rightarrow> int \<Rightarrow> val" where
  "at_index (Array xs) i = (if 0 \<le> i \<and> i < int (length xs) then xs ! nat i else Undefined)"
| "at_index (Str s) i = (if 0 \<le> i \<and> i < int (length s) then Str [s ! nat i] else Undefined)"
| "at_index _ i = Undefined"

text \<open>
  \<^verbatim>\<open>array[n]\<close>, for any two values. On \<^verbatim>\<open>undefined\<close> the host throws its TypeError.
  At an index, an array gives its element and a string its character; a name that names
  no property gives \<^verbatim>\<open>undefined\<close>; the name \<^verbatim>\<open>length\<close> gives the length. With any
  other name the program reads a property of its choice, which is counted: the property
  \<^verbatim>\<open>constructor\<close> of a function is the host's \<^verbatim>\<open>Function\<close>, and with the others the
  run leaves what is described here.
\<close>

definition js_element :: "val \<Rightarrow> val \<Rightarrow> state \<Rightarrow> outcome" where
  "js_element array n st =
     (if array = Undefined then (Inl HostTypeError, st)
      else
        (case key_index n of
           Some i \<Rightarrow> (Inr (at_index array i), st)
         | None \<Rightarrow>
             if names_no_property n then (Inr Undefined, st)
             else if n = Str ''length'' then (js_length array, st)
             else if n = Str ''constructor'' \<and> is_function array then
               (Inr HostFunction, st\<lparr>host_reads := Suc (host_reads st)\<rparr>)
             else (Inl Unmodelled, st\<lparr>host_reads := Suc (host_reads st)\<rparr>)))"

text \<open>The functions bound in \<open>topScope\<close>, by the name they are bound to.\<close>

definition native :: "string \<Rightarrow> val list \<Rightarrow> state \<Rightarrow> outcome" where
  "native f vs st =
     (if f \<in> set [''+'', ''-'', ''*'', ''/'', ''=='', ''<'', ''>''] then
        (case binary_operator f (nth_arg vs 0) (nth_arg vs 1) of
           Some v \<Rightarrow> (Inr v, st)
         | None \<Rightarrow> host_result f (nth_arg vs 0) (nth_arg vs 1) st)
      else if f = ''print'' then
        (Inr (nth_arg vs 0), st\<lparr>console := console st @ [nth_arg vs 0]\<rparr>)
      else if f = ''array'' then (Inr (Array vs), st)
      else if f = ''length'' then (js_length (nth_arg vs 0), st)
      else if f = ''element'' then js_element (nth_arg vs 0) (nth_arg vs 1) st
      else (Inl Unmodelled, st))"

text \<open>
  The host's \<^verbatim>\<open>Function\<close> makes a function from the text of a body in the language of
  the host. Of these texts, the assignments of a number to a property of \<open>topScope\<close>
  are described: \<^verbatim>\<open>topScope.\<close>, a name of word characters that does not begin with a
  digit, \<^verbatim>\<open> = \<close> and a decimal numeral of at most \<open>2 ^ 53\<close> without a leading zero.
\<close>

definition host_assignment :: "string \<Rightarrow> (string \<times> int) option" where
  "host_assignment text =
     (let name = takeWhile is_word (drop 9 text);
          rest = dropWhile is_word (drop 9 text);
          digits = drop 3 rest
      in if take 9 text = ''topScope.'' \<and> name \<noteq> [] \<and> \<not> is_digit (hd name) \<and>
            take 3 rest = '' = '' \<and> key_index (Str digits) \<noteq> None \<and>
            decimal digits \<le> 2 ^ 53
         then Some (name, decimal digits) else None)"

section \<open>The evaluator\<close>

text \<open>\<^verbatim>\<open>expr.type == "valid identifier"\<close> and \<^verbatim>\<open>expr.name\<close>\<close>

fun is_identifier :: "expr \<Rightarrow> bool" where
  "is_identifier (Identifier name) = True"
| "is_identifier _ = False"

fun name_of :: "expr \<Rightarrow> string" where
  "name_of (Identifier name) = name"
| "name_of _ = []"

text \<open>\<^verbatim>\<open>expr.value\<close>\<close>

fun literal_value :: "lit \<Rightarrow> val" where
  "literal_value (NumberLit n) = Num n"
| "literal_value InfinityLit = Infinity"
| "literal_value (StringLit s) = Str s"

text \<open>
  The evaluator calls itself through the special forms and through the functions it
  applies, and a program may loop forever. It is therefore defined by recursion on a bound
  on the depth of calls; the parts of it that are defined first take the evaluator of the
  next smaller bound as the argument \<open>ev\<close>.

  \<^verbatim>\<open>args.map((arg) => evaluate(arg, scope))\<close>: left to right, up to the first exception.
\<close>

fun evaluate_args ::
  "evaluator \<Rightarrow> expr list \<Rightarrow> addr \<Rightarrow> state \<Rightarrow> (error + val list) \<times> state" where
  "evaluate_args ev [] scope st = (Inr [], st)"
| "evaluate_args ev (arg # args) scope st =
     (case ev arg scope st of
        (Inl e, st1) \<Rightarrow> (Inl e, st1)
      | (Inr v, st1) \<Rightarrow>
         (case evaluate_args ev args scope st1 of
            (Inl e, st2) \<Rightarrow> (Inl e, st2)
          | (Inr vs, st2) \<Rightarrow> (Inr (v # vs), st2)))"

text \<open>
  The loop \<^verbatim>\<open>localScope[params[i]] = arguments[i]\<close> of a function made by \<^verbatim>\<open>fun\<close>,
  run when both sequences have the same length.
\<close>

definition bind_params :: "addr \<Rightarrow> string list \<Rightarrow> val list \<Rightarrow> state \<Rightarrow> state" where
  "bind_params localScope params arguments st =
     foldl (\<lambda>s (p, v). set_property localScope p v s) st (zip params arguments)"

text \<open>
  \<^verbatim>\<open>op(...)\<close>: the call of a function value. A built-in runs in the host. A function made
  by \<^verbatim>\<open>fun\<close> checks the number of arguments, creates its local scope from the scope it
  holds, binds the parameters and evaluates its body there.

  \<^verbatim>\<open>Function\<close>, called with one text, returns the function with that body; it is
  described for the texts above. That function, called, runs its body in the global
  scope of the host. The file declares \<open>topScope\<close> at its top level: loaded as a
  script, that is a global binding, and the body assigns to a property of the object it
  holds. The call returns \<^verbatim>\<open>undefined\<close>.
\<close>

fun call_function :: "evaluator \<Rightarrow> val \<Rightarrow> val list \<Rightarrow> state \<Rightarrow> outcome" where
  "call_function ev (Native f) arguments st = native f arguments st"
| "call_function ev (Closure params body scope) arguments st =
     (if length arguments \<noteq> length params then
        (Inl (TypeError ''Wrong number of arguments''), st)
      else
        (let (localScope, st1) = Object_create (Some scope) st
         in ev body localScope (bind_params localScope params arguments st1)))"
| "call_function ev HostFunction arguments st =
     (case arguments of
        [Str text] \<Rightarrow>
          (case host_assignment text of
             Some (name, n) \<Rightarrow> (Inr (HostCode name n), st)
           | None \<Rightarrow> (Inl Unmodelled, st))
      | _ \<Rightarrow> (Inl Unmodelled, st))"
| "call_function ev (HostCode name n) arguments st =
     (Inr Undefined, set_property topScope name (Num n) st)"
| "call_function ev _ arguments st = (Inl (TypeError ''Applying a non-function.''), st)"

subsection \<open>Special forms\<close>

definition specialForms_if :: "evaluator \<Rightarrow> expr list \<Rightarrow> addr \<Rightarrow> state \<Rightarrow> outcome" where
  "specialForms_if ev args scope st =
     (if length args \<noteq> 3 then (Inl (SyntaxError ''Wrong number of arguments to if''), st)
      else
        (case ev (args ! 0) scope st of
           (Inl e, st1) \<Rightarrow> (Inl e, st1)
         | (Inr v, st1) \<Rightarrow>
             if v \<noteq> Bool False then ev (args ! 1) scope st1 else ev (args ! 2) scope st1))"

text \<open>
  The \<^verbatim>\<open>while\<close> loop of the host has no bound of its own; \<open>k\<close> bounds the number of
  times the condition is evaluated.
\<close>

fun while_loop :: "nat \<Rightarrow> evaluator \<Rightarrow> expr \<Rightarrow> expr \<Rightarrow> addr \<Rightarrow> state \<Rightarrow> outcome" where
  "while_loop 0 ev cond body scope st = (Inl OutOfFuel, st)"
| "while_loop (Suc k) ev cond body scope st =
     (case ev cond scope st of
        (Inl e, st1) \<Rightarrow> (Inl e, st1)
      | (Inr v, st1) \<Rightarrow>
          if v \<noteq> Bool False then
            (case ev body scope st1 of
               (Inl e, st2) \<Rightarrow> (Inl e, st2)
             | (Inr _, st2) \<Rightarrow> while_loop k ev cond body scope st2)
          else (Inr (Bool False), st1))"

definition specialForms_while ::
  "nat \<Rightarrow> evaluator \<Rightarrow> expr list \<Rightarrow> addr \<Rightarrow> state \<Rightarrow> outcome" where
  "specialForms_while k ev args scope st =
     (if length args \<noteq> 2 then (Inl (SyntaxError ''Wrong number of args to while''), st)
      else while_loop k ev (args ! 0) (args ! 1) scope st)"

fun do_loop :: "evaluator \<Rightarrow> expr list \<Rightarrow> addr \<Rightarrow> val \<Rightarrow> state \<Rightarrow> outcome" where
  "do_loop ev [] scope v st = (Inr v, st)"
| "do_loop ev (arg # args) scope v st =
     (case ev arg scope st of
        (Inl e, st1) \<Rightarrow> (Inl e, st1)
      | (Inr v1, st1) \<Rightarrow> do_loop ev args scope v1 st1)"

definition specialForms_do :: "evaluator \<Rightarrow> expr list \<Rightarrow> addr \<Rightarrow> state \<Rightarrow> outcome" where
  "specialForms_do ev args scope st = do_loop ev args scope (Bool False) st"

definition specialForms_define ::
  "evaluator \<Rightarrow> expr list \<Rightarrow> addr \<Rightarrow> state \<Rightarrow> outcome" where
  "specialForms_define ev args scope st =
     (if length args \<noteq> 2 \<or> \<not> is_identifier (args ! 0) then
        (Inl (SyntaxError ''Incorrect use of define''), st)
      else
        (case ev (args ! 1) scope st of
           (Inl e, st1) \<Rightarrow> (Inl e, st1)
         | (Inr v, st1) \<Rightarrow> (Inr v, set_property scope (name_of (args ! 0)) v st1)))"

definition specialForms_fun :: "evaluator \<Rightarrow> expr list \<Rightarrow> addr \<Rightarrow> state \<Rightarrow> outcome" where
  "specialForms_fun ev args scope st =
     (if args = [] then (Inl (SyntaxError ''Functions need a body''), st)
      else
        (let body = last args in
         if \<not> list_all is_identifier (butlast args) then
           (Inl (SyntaxError ''Parameter names must be valid identifiers''), st)
         else (Inr (Closure (map name_of (butlast args)) body scope), st)))"

text \<open>
  The object \<open>specialForms\<close> has no prototype, so \<^verbatim>\<open>name in specialForms\<close> holds for
  the five names assigned to it and for no other. A handler takes the bound for its loop,
  the evaluator, the argument expressions and the scope.
\<close>

type_synonym special_form = "nat \<Rightarrow> evaluator \<Rightarrow> expr list \<Rightarrow> addr \<Rightarrow> state \<Rightarrow> outcome"

definition specialForms :: "string \<Rightarrow> special_form option" where
  "specialForms name =
     (if name = ''if'' then Some (\<lambda>k. specialForms_if)
      else if name = ''while'' then Some specialForms_while
      else if name = ''do'' then Some (\<lambda>k. specialForms_do)
      else if name = ''define'' then Some (\<lambda>k. specialForms_define)
      else if name = ''fun'' then Some (\<lambda>k. specialForms_fun)
      else None)"

text \<open>
  \<^verbatim>\<open>operator.type == "valid identifier" && operator.name in specialForms\<close>, with the
  handler found.
\<close>

fun special_form_of :: "expr \<Rightarrow> special_form option" where
  "special_form_of (Identifier name) = specialForms name"
| "special_form_of _ = None"

subsection \<open>evaluate\<close>

fun evaluate :: "nat \<Rightarrow> expr \<Rightarrow> addr \<Rightarrow> state \<Rightarrow> outcome" where
  "evaluate 0 expr scope st = (Inl OutOfFuel, st)"
| "evaluate (Suc n) (Value l) scope st = (Inr (literal_value l), st)"
| "evaluate (Suc n) (Identifier name) scope st =
     (case get_property (heap st) scope name of
        Some v \<Rightarrow> (Inr v, st)
      | None \<Rightarrow> (Inl (ReferenceError (''Undefined binding: '' @ name)), st))"
| "evaluate (Suc n) (Apply operator args) scope st =
     (case special_form_of operator of
        Some form \<Rightarrow> form n (evaluate n) args scope st
      | None \<Rightarrow>
         (case evaluate n operator scope st of
            (Inl e, st1) \<Rightarrow> (Inl e, st1)
          | (Inr op, st1) \<Rightarrow>
              if is_function op then
                (case evaluate_args (evaluate n) args scope st1 of
                   (Inl e, st2) \<Rightarrow> (Inl e, st2)
                 | (Inr vs, st2) \<Rightarrow> call_function (evaluate n) op vs st2)
              else (Inl (TypeError ''Applying a non-function.''), st1)))"

subsection \<open>The global scope and run\<close>

text \<open>
  The state before any program runs holds \<open>topScope\<close> alone, with the bindings in the
  order in which they are assigned. The answers \<open>h\<close> of the host are a parameter.
\<close>

definition topScope_bindings :: "(string \<times> val) list" where
  "topScope_bindings =
     [(''true'', Bool True), (''false'', Bool False)] @
     map (\<lambda>op. (op, Native op)) [''+'', ''-'', ''*'', ''/'', ''=='', ''<'', ''>''] @
     [(''print'', Native ''print''), (''array'', Native ''array''),
      (''length'', Native ''length''), (''element'', Native ''element'')]"

definition initial_state :: "host_answers \<Rightarrow> state" where
  "initial_state h =
     \<lparr>heap = (\<lambda>a. \<lparr>bindings = [], parent = None\<rparr>)
               (topScope := \<lparr>bindings = topScope_bindings, parent = None\<rparr>),
      fresh = Suc topScope,
      console = [],
      host = h,
      ticks = 0,
      host_reads = 0\<rparr>"

text \<open>
  Answers for statements about single runs that ask the host nothing.
\<close>

definition no_answers :: host_answers where
  "no_answers t op a b = BoolP False"

text \<open>
  \<^verbatim>\<open>evaluate(parse(program), Object.create(topScope))\<close>: the program is parsed first,
  and the scope is made when parsing has succeeded.
\<close>

definition run :: "nat \<Rightarrow> string \<Rightarrow> state \<Rightarrow> outcome" where
  "run n program st =
     (case parse program of
        Inl e \<Rightarrow> (Inl e, st)
      | Inr expr \<Rightarrow>
          (let (scope, st1) = Object_create (Some topScope) st
           in evaluate n expr scope st1))"

text \<open>
  The file ends by running a program; \<open>loaded_state\<close> is the state this leaves, in
  which later programs run.
\<close>

definition startup_program :: string where
  "startup_program =
     [CHR 0x0A, CHR 0x0A] @ ''do('' @ [CHR 0x0A] @
     ''  define(x, array(1, 2)),'' @ [CHR 0x0A] @
     ''  print(x)'' @ [CHR 0x0A] @ '')'' @ [CHR 0x0A, CHR 0x0A]"

definition loaded_state :: "host_answers \<Rightarrow> state" where
  "loaded_state h = snd (run 4 startup_program (initial_state h))"


text \<open>
  \<open>ev_le ev ev'\<close>: wherever \<open>ev\<close> ends within its bound, \<open>ev'\<close> ends in the same
  way.
\<close>

definition ev_le :: "evaluator \<Rightarrow> evaluator \<Rightarrow> bool" where
  "ev_le ev ev' \<longleftrightarrow>
     (\<forall>e sc st. fst (ev e sc st) \<noteq> Inl OutOfFuel \<longrightarrow> ev' e sc st = ev e sc st)"

subsection \<open>Scopes during a run\<close>

text \<open>The names that \<open>topScope\<close> binds to functions.\<close>

definition native_names :: "string list" where
  "native_names =
     [''+'', ''-'', ''*'', ''/'', ''=='', ''<'', ''>''] @
     [''print'', ''array'', ''length'', ''element'']"

text \<open>
  \<open>egg_value N F v\<close>: the value \<open>v\<close> is and contains no object of the host but the
  eleven built-in functions, and every function made by \<^verbatim>\<open>fun\<close> that it is or contains
  holds a scope object created at an address from \<open>N\<close> up to, not including, \<open>F\<close>.
\<close>

fun egg_value :: "addr \<Rightarrow> addr \<Rightarrow> val \<Rightarrow> bool" where
  "egg_value N F (Closure params body scope) = (N \<le> scope \<and> scope < F)"
| "egg_value N F (Array vs) = list_all (egg_value N F) vs"
| "egg_value N F (Native f) = (f \<in> set native_names)"
| "egg_value N F HostFunction = False"
| "egg_value N F (HostCode name n) = False"
| "egg_value N F _ = True"

text \<open>All values bound in a scope object are such values.\<close>

definition bindings_in :: "addr \<Rightarrow> addr \<Rightarrow> scope_obj \<Rightarrow> bool" where
  "bindings_in N F s \<longleftrightarrow> list_all (\<lambda>(x, v). egg_value N F v) (bindings s)"

text \<open>
  What holds of the state while a program runs whose scope, the child of \<open>topScope\<close>
  made by \<open>run\<close>, is at address \<open>N\<close>, as long as it has read no property by a name of
  its choice: the values bound in \<open>topScope\<close> and in the scope objects made since are
  such values for the scope objects made since; the scope at \<open>N\<close> is a child of
  \<open>topScope\<close>; and every scope object made after it has its prototype among the objects
  from \<open>N\<close> on that were made before it, so it descends from the scope at \<open>N\<close>.
\<close>

definition run_inv :: "addr \<Rightarrow> state \<Rightarrow> bool" where
  "run_inv N st \<longleftrightarrow>
     0 < N \<and> N < fresh st \<and>
     bindings_in N (fresh st) (heap st 0) \<and>
     parent (heap st N) = Some 0 \<and>
     (\<forall>a. N \<le> a \<and> a < fresh st \<longrightarrow> bindings_in N (fresh st) (heap st a)) \<and>
     (\<forall>a. N < a \<and> a < fresh st \<longrightarrow> (\<exists>p. parent (heap st a) = Some p \<and> N \<le> p \<and> p < a))"

text \<open>
  \<open>extends N st st'\<close>: \<open>st'\<close> comes after \<open>st\<close> in such a run; no scope object older
  than \<open>N\<close> has changed.
\<close>

definition extends :: "addr \<Rightarrow> state \<Rightarrow> state \<Rightarrow> bool" where
  "extends N st st' \<longleftrightarrow>
     run_inv N st' \<and> fresh st \<le> fresh st' \<and> (\<forall>a<N. heap st' a = heap st a)"



text \<open>
  The state between runs of programs that made no such read: \<open>topScope\<close> exists and
  binds only built-in functions and values that are and contain no function.
\<close>

definition root_ok :: "state \<Rightarrow> bool" where
  "root_ok st \<longleftrightarrow> 0 < fresh st \<and> bindings_in 0 0 (heap st 0)"

section \<open>The parser terminates\<close>

text \<open>
  Every atom is at least one character long, and neither \<open>parseApply\<close> nor the loop
  gives back more text than it was given.
\<close>

lemma length_skipSpace: "length (skipSpace s) \<le> length s"
  by (simp add: skipSpace_def length_dropWhile_le)

lemma match_string_drop:
  assumes "match_string p = Some s"
  shows "length (drop (length s + 2) p) < length p"
proof -
  from assms obtain c cs where p: "p = c # cs" and s: "s = takeWhile (\<lambda>c. c \<noteq> dquote) cs"
    by (auto simp: match_string_def split: list.splits if_splits)
  have "length s \<le> length cs" unfolding s by (rule length_takeWhile_le)
  with p show ?thesis by simp
qed

lemma match_number_drop:
  assumes "match_number p = Some ds"
  shows "length (drop (length ds) p) < length p"
proof -
  from assms have ds: "ds = takeWhile is_digit p" and ne: "ds \<noteq> []"
    by (auto simp: match_number_def Let_def split: if_splits)
  have "length ds \<le> length p" unfolding ds by (rule length_takeWhile_le)
  moreover from ne have "0 < length ds" by simp
  ultimately show ?thesis unfolding length_drop by linarith
qed

lemma match_identifier_drop:
  assumes "match_identifier p = Some n"
  shows "length (drop (length n) p) < length p"
proof -
  from assms have n: "n = takeWhile is_ident_char p" and ne: "n \<noteq> []"
    by (auto simp: match_identifier_def Let_def split: if_splits)
  have "length n \<le> length p" unfolding n by (rule length_takeWhile_le)
  moreover from ne have "0 < length n" by simp
  ultimately show ?thesis unfolding length_drop by linarith
qed

lemma parse_rest_length_partial:
  "parseExpression_parseApply_parseArgs_dom (Inl p) \<Longrightarrow>
     (\<forall>e r. parseExpression p = Inr (e, r) \<longrightarrow> length r < length p)"
  "parseExpression_parseApply_parseArgs_dom (Inr (Inl (e0, q))) \<Longrightarrow>
     (\<forall>e r. parseApply e0 q = Inr (e, r) \<longrightarrow> length r \<le> length q)"
  "parseExpression_parseApply_parseArgs_dom (Inr (Inr (as, u))) \<Longrightarrow>
     (\<forall>as' r. parseArgs as u = Inr (as', r) \<longrightarrow> length r \<le> length u)"
proof (induct rule: parseExpression_parseApply_parseArgs.pinduct)
  case (1 program0)
  show ?case
  proof (intro allI impI)
    fix e r assume res: "parseExpression program0 = Inr (e, r)"
    let ?p = "skipSpace program0"
    have le: "length ?p \<le> length program0" by (rule length_skipSpace)
    show "length r < length program0"
    proof (cases "match_string ?p")
      case (Some s)
      with res 1(1) have "parseApply (Value (StringLit s)) (drop (length s + 2) ?p) = Inr (e, r)"
        by (simp add: parseExpression.psimps)
      with 1(4)[OF refl Some] have "length r \<le> length (drop (length s + 2) ?p)" by blast
      with match_string_drop[OF Some] le show ?thesis by linarith
    next
      case None
      note ms = None
      show ?thesis
      proof (cases "match_number ?p")
        case (Some ds)
        with res 1(1) ms have "parseApply (Value (Number_of ds)) (drop (length ds) ?p) = Inr (e, r)"
          by (simp add: parseExpression.psimps)
        with 1(3)[OF refl ms Some] have "length r \<le> length (drop (length ds) ?p)" by blast
        with match_number_drop[OF Some] le show ?thesis by linarith
      next
        case None
        note mn = None
        show ?thesis
        proof (cases "match_identifier ?p")
          case (Some name)
          with res 1(1) ms mn have "parseApply (Identifier name) (drop (length name) ?p) = Inr (e, r)"
            by (simp add: parseExpression.psimps)
          with 1(2)[OF refl ms mn Some] have "length r \<le> length (drop (length name) ?p)" by blast
          with match_identifier_drop[OF Some] le show ?thesis by linarith
        next
          case None
          with res 1(1) ms mn show ?thesis by (simp add: parseExpression.psimps Let_def)
        qed
      qed
    qed
  qed
next
  case (2 expr program0)
  show ?case
  proof (intro allI impI)
    fix e r assume res: "parseApply expr program0 = Inr (e, r)"
    let ?p = "skipSpace program0"
    have le: "length ?p \<le> length program0" by (rule length_skipSpace)
    show "length r \<le> length program0"
    proof (cases "take 1 ?p \<noteq> ''(''")
      case True
      with res 2(1) have "r = ?p" by (simp add: parseApply.psimps)
      with le show ?thesis by simp
    next
      case False
      then have op: "\<not> take 1 ?p \<noteq> ''(''" by simp
      from res 2(1) op obtain args p' where
        pa: "parseArgs [] (skipSpace (drop 1 ?p)) = Inr (args, p')"
        and rec: "parseApply (Apply expr args) (drop 1 p') = Inr (e, r)"
        by (auto simp: parseApply.psimps split: sum.splits)
      from 2(2)[OF refl op] pa have l1: "length p' \<le> length (skipSpace (drop 1 ?p))" by blast
      from 2(3)[OF refl op pa refl] rec have l2: "length r \<le> length (drop 1 p')" by blast
      have "length (skipSpace (drop 1 ?p)) \<le> length (drop 1 ?p)" by (rule length_skipSpace)
      with l1 l2 le show ?thesis by simp
    qed
  qed
next
  case (3 args program)
  show ?case
  proof (intro allI impI)
    fix as' r assume res: "parseArgs args program = Inr (as', r)"
    show "length r \<le> length program"
    proof (cases "take 1 program \<noteq> '')''")
      case False
      with res 3(1) show ?thesis by (simp add: parseArgs.psimps)
    next
      case True
      from res 3(1) True obtain arg rest where
        pe: "parseExpression program = Inr (arg, rest)"
        by (auto simp: parseArgs.psimps split: sum.splits)
      from 3(2)[OF True] pe have l1: "length rest < length program" by blast
      let ?p' = "skipSpace rest"
      have l2: "length ?p' \<le> length rest" by (rule length_skipSpace)
      show ?thesis
      proof (cases "take 1 ?p' = '',''")
        case c: True
        with res 3(1) True pe have "parseArgs (args @ [arg]) (skipSpace (drop 1 ?p')) = Inr (as', r)"
          by (simp add: parseArgs.psimps)
        with 3(3)[OF True pe refl refl c] have "length r \<le> length (skipSpace (drop 1 ?p'))" by blast
        moreover have "length (skipSpace (drop 1 ?p')) \<le> length (drop 1 ?p')" by (rule length_skipSpace)
        ultimately show ?thesis using l1 l2 by simp
      next
        case c: False
        show ?thesis
        proof (cases "take 1 ?p' \<noteq> '')''")
          case True
          with res 3(1) \<open>take 1 program \<noteq> '')''\<close> pe c show ?thesis
            by (simp add: parseArgs.psimps)
        next
          case False
          then have cl: "\<not> take 1 ?p' \<noteq> '')''" by simp
          with res 3(1) True pe c have "parseArgs (args @ [arg]) ?p' = Inr (as', r)"
            by (simp add: parseArgs.psimps)
          with 3(4)[OF True pe refl refl c cl] have "length r \<le> length ?p'" by blast
          with l1 l2 show ?thesis by simp
        qed
      qed
    qed
  qed
qed

termination parseExpression
proof (relation "measure (\<lambda>x. case x of
          Inl p \<Rightarrow> 2 * length p
        | Inr (Inl (e, p)) \<Rightarrow> 2 * length p + 1
        | Inr (Inr (as, p)) \<Rightarrow> 2 * length p + 1)", goal_cases)
  case 1
  show ?case by simp
next
  case (2 program0 x x2)
  with match_identifier_drop[of x x2] length_skipSpace[of program0] show ?case by simp
next
  case (3 program0 x x2)
  with match_number_drop[of x x2] length_skipSpace[of program0] show ?case by simp
next
  case (4 program0 x x2)
  with match_string_drop[of x x2] length_skipSpace[of program0] show ?case by simp
next
  case (5 expr program0 x)
  then have "x \<noteq> []" by auto
  then have "length (drop 1 x) < length x" by (cases x) simp_all
  with 5 length_skipSpace[of program0] length_skipSpace[of "drop 1 x"] show ?case
    by simp
next
  case (6 expr program0 x b xa y)
  then have "x \<noteq> []" by auto
  then have d: "length (drop 1 x) < length x" by (cases x) simp_all
  from 6 parse_rest_length_partial(3)[of "[]" "skipSpace (drop 1 x)"]
  have "length y \<le> length (skipSpace (drop 1 x))" by auto
  with 6 d length_skipSpace[of program0] length_skipSpace[of "drop 1 x"] show ?case
    by simp
next
  case (7 args program)
  show ?case by simp
next
  case (8 args program b x y xa)
  from 8 parse_rest_length_partial(1)[of program] have "length y < length program" by auto
  with 8 length_skipSpace[of y] length_skipSpace[of "drop 1 xa"] show ?case by simp
next
  case (9 args program b x y xa)
  from 9 parse_rest_length_partial(1)[of program] have "length y < length program" by auto
  with 9 length_skipSpace[of y] show ?case by simp
qed

declare parseExpression.simps [simp del] parseApply.simps [simp del] parseArgs.simps [simp del]

section \<open>A larger bound does not change an evaluation\<close>

text \<open>
  An evaluation that ends with a value or an exception of the host under one bound ends
  in the same way, with the same state, under every larger bound. A result other than
  \<open>OutOfFuel\<close> is therefore the result of the program.
\<close>

lemma ev_leD: "ev_le ev ev' \<Longrightarrow> ev e sc st = (r, st1) \<Longrightarrow> r \<noteq> Inl OutOfFuel \<Longrightarrow> ev' e sc st = (r, st1)"
  by (auto simp: ev_le_def)

lemma evaluate_args_mono:
  assumes "ev_le ev ev'"
  shows "fst (evaluate_args ev args sc st) \<noteq> Inl OutOfFuel \<Longrightarrow>
         evaluate_args ev' args sc st = evaluate_args ev args sc st"
proof (induction args arbitrary: st)
  case Nil
  show ?case by simp
next
  case (Cons a args)
  obtain r st1 where a: "ev a sc st = (r, st1)" by (cases "ev a sc st")
  show ?case
  proof (cases r)
    case (Inl e)
    with Cons.prems a have "e \<noteq> OutOfFuel" by auto
    with a Inl have "ev' a sc st = (Inl e, st1)" using ev_leD[OF assms a] by simp
    with a Inl show ?thesis by simp
  next
    case (Inr v)
    with a have a': "ev' a sc st = (Inr v, st1)" using ev_leD[OF assms a] by simp
    from Cons.prems a Inr have "fst (evaluate_args ev args sc st1) \<noteq> Inl OutOfFuel"
      by (auto split: prod.splits sum.splits)
    from Cons.IH[OF this] a a' Inr show ?thesis by simp
  qed
qed

lemma do_loop_mono:
  assumes "ev_le ev ev'"
  shows "fst (do_loop ev args sc v st) \<noteq> Inl OutOfFuel \<Longrightarrow>
         do_loop ev' args sc v st = do_loop ev args sc v st"
proof (induction args arbitrary: st v)
  case Nil
  show ?case by simp
next
  case (Cons a args)
  obtain r st1 where a: "ev a sc st = (r, st1)" by (cases "ev a sc st")
  show ?case
  proof (cases r)
    case (Inl e)
    with Cons.prems a have "e \<noteq> OutOfFuel" by auto
    with a Inl have "ev' a sc st = (Inl e, st1)" using ev_leD[OF assms a] by simp
    with a Inl show ?thesis by simp
  next
    case (Inr v1)
    with a have a': "ev' a sc st = (Inr v1, st1)" using ev_leD[OF assms a] by simp
    from Cons.prems a Inr have "fst (do_loop ev args sc v1 st1) \<noteq> Inl OutOfFuel"
      by simp
    from Cons.IH[OF this] a a' Inr show ?thesis by simp
  qed
qed

lemma while_loop_mono:
  assumes "ev_le ev ev'"
  shows "fst (while_loop k ev c b sc st) \<noteq> Inl OutOfFuel \<Longrightarrow>
         while_loop (Suc k) ev' c b sc st = while_loop k ev c b sc st"
proof (induction k arbitrary: st)
  case 0
  then show ?case by simp
next
  case (Suc k)
  obtain r st1 where c: "ev c sc st = (r, st1)" by (cases "ev c sc st")
  show ?case
  proof (cases r)
    case (Inl e)
    with Suc.prems c have "e \<noteq> OutOfFuel" by auto
    with c Inl have "ev' c sc st = (Inl e, st1)" using ev_leD[OF assms c] by simp
    with c Inl show ?thesis by simp
  next
    case (Inr v)
    with c have c': "ev' c sc st = (Inr v, st1)" using ev_leD[OF assms c] by simp
    show ?thesis
    proof (cases "v \<noteq> Bool False")
      case False
      with c c' Inr show ?thesis by simp
    next
      case True
      obtain r2 st2 where b: "ev b sc st1 = (r2, st2)" by (cases "ev b sc st1")
      show ?thesis
      proof (cases r2)
        case (Inl e)
        with Suc.prems c Inr True b have "e \<noteq> OutOfFuel" by auto
        with b Inl have "ev' b sc st1 = (Inl e, st2)" using ev_leD[OF assms b] by simp
        with c c' Inr True b Inl show ?thesis by simp
      next
        case (Inr v2)
        with b have b': "ev' b sc st1 = (Inr v2, st2)" using ev_leD[OF assms b] by simp
        from Suc.prems c \<open>r = Inr v\<close> True b Inr
        have "fst (while_loop k ev c b sc st2) \<noteq> Inl OutOfFuel" by simp
        from Suc.IH[OF this] c c' \<open>r = Inr v\<close> True b b' Inr show ?thesis by simp
      qed
    qed
  qed
qed

lemma call_function_mono:
  assumes "ev_le ev ev'"
  shows "fst (call_function ev f vs st) \<noteq> Inl OutOfFuel \<Longrightarrow>
         call_function ev' f vs st = call_function ev f vs st"
  using assms by (cases f) (auto simp: ev_le_def Let_def split: prod.splits)

lemma specialForms_if_mono:
  assumes "ev_le ev ev'"
  shows "fst (specialForms_if ev args sc st) \<noteq> Inl OutOfFuel \<Longrightarrow>
         specialForms_if ev' args sc st = specialForms_if ev args sc st"
proof -
  assume fin: "fst (specialForms_if ev args sc st) \<noteq> Inl OutOfFuel"
  show ?thesis
  proof (cases "length args \<noteq> 3")
    case True
    then show ?thesis by (simp add: specialForms_if_def)
  next
    case False
    obtain r st1 where c: "ev (args ! 0) sc st = (r, st1)" by (cases "ev (args ! 0) sc st")
    show ?thesis
    proof (cases r)
      case (Inl e)
      with fin False c have "e \<noteq> OutOfFuel" by (auto simp: specialForms_if_def)
      with c Inl have "ev' (args ! 0) sc st = (Inl e, st1)" using ev_leD[OF assms c] by simp
      with c Inl False show ?thesis by (simp add: specialForms_if_def)
    next
      case (Inr v)
      with c have c': "ev' (args ! 0) sc st = (Inr v, st1)" using ev_leD[OF assms c] by simp
      from fin False c Inr assms c' show ?thesis
        by (auto simp: specialForms_if_def ev_le_def)
    qed
  qed
qed

lemma specialForms_define_mono:
  assumes "ev_le ev ev'"
  shows "fst (specialForms_define ev args sc st) \<noteq> Inl OutOfFuel \<Longrightarrow>
         specialForms_define ev' args sc st = specialForms_define ev args sc st"
proof -
  assume fin: "fst (specialForms_define ev args sc st) \<noteq> Inl OutOfFuel"
  show ?thesis
  proof (cases "length args \<noteq> 2 \<or> \<not> is_identifier (args ! 0)")
    case True
    then show ?thesis by (simp add: specialForms_define_def)
  next
    case False
    obtain r st1 where c: "ev (args ! 1) sc st = (r, st1)" by (cases "ev (args ! 1) sc st")
    show ?thesis
    proof (cases r)
      case (Inl e)
      with fin False c have "e \<noteq> OutOfFuel" by (auto simp: specialForms_define_def)
      with c Inl have "ev' (args ! 1) sc st = (Inl e, st1)" using ev_leD[OF assms c] by simp
      with c Inl False show ?thesis by (simp add: specialForms_define_def)
    next
      case (Inr v)
      with c have c': "ev' (args ! 1) sc st = (Inr v, st1)" using ev_leD[OF assms c] by simp
      from False c Inr c' show ?thesis
        by (simp add: specialForms_define_def)
    qed
  qed
qed

lemma special_form_mono:
  assumes "ev_le ev ev'" and "specialForms name = Some form"
  shows "fst (form k ev args sc st) \<noteq> Inl OutOfFuel \<Longrightarrow>
         form (Suc k) ev' args sc st = form k ev args sc st"
proof -
  assume fin: "fst (form k ev args sc st) \<noteq> Inl OutOfFuel"
  from assms(2) consider
      "form = (\<lambda>k. specialForms_if)" | "form = specialForms_while"
    | "form = (\<lambda>k. specialForms_do)" | "form = (\<lambda>k. specialForms_define)"
    | "form = (\<lambda>k. specialForms_fun)"
    by (auto simp: specialForms_def split: if_splits)
  then show ?thesis
  proof cases
    case 1
    with fin specialForms_if_mono[OF assms(1)] show ?thesis by simp
  next
    case 2
    with fin while_loop_mono[OF assms(1), of k "args ! 0" "args ! 1" sc st] show ?thesis
      by (cases "length args = 2") (simp_all add: specialForms_while_def del: while_loop.simps)
  next
    case 3
    with fin do_loop_mono[OF assms(1)] show ?thesis by (simp add: specialForms_do_def)
  next
    case 4
    with fin specialForms_define_mono[OF assms(1)] show ?thesis by simp
  next
    case 5
    then show ?thesis by (simp add: specialForms_fun_def)
  qed
qed

lemma evaluate_Suc_mono: "ev_le (evaluate n) (evaluate (Suc n))"
proof (induction n)
  case 0
  show ?case by (simp add: ev_le_def)
next
  case (Suc n)
  show ?case unfolding ev_le_def
  proof (intro allI impI)
    fix e sc st
    assume fin: "fst (evaluate (Suc n) e sc st) \<noteq> Inl OutOfFuel"
    show "evaluate (Suc (Suc n)) e sc st = evaluate (Suc n) e sc st"
    proof (cases e)
      case (Value l)
      then show ?thesis by simp
    next
      case (Identifier name)
      then show ?thesis by simp
    next
      case (Apply operator args)
      show ?thesis
      proof (cases "special_form_of operator")
        case (Some form)
        then obtain name where "specialForms name = Some form"
          by (cases operator) auto
        from special_form_mono[OF Suc.IH this, of n args sc st] fin Apply Some
        show ?thesis by simp
      next
        case None
        obtain r st1 where o: "evaluate n operator sc st = (r, st1)"
          by (cases "evaluate n operator sc st")
        show ?thesis
        proof (cases r)
          case (Inl e)
          with fin Apply None o have "e \<noteq> OutOfFuel" by auto
          with o Inl have "evaluate (Suc n) operator sc st = (Inl e, st1)"
            using ev_leD[OF Suc.IH o] by simp
          with o Inl Apply None show ?thesis by simp
        next
          case (Inr f)
          with o have o': "evaluate (Suc n) operator sc st = (Inr f, st1)"
            using ev_leD[OF Suc.IH o] by simp
          show ?thesis
          proof (cases "is_function f")
            case False
            with o o' Inr Apply None show ?thesis by simp
          next
            case True
            obtain r2 st2 where a: "evaluate_args (evaluate n) args sc st1 = (r2, st2)"
              by (cases "evaluate_args (evaluate n) args sc st1")
            show ?thesis
            proof (cases r2)
              case (Inl e)
              with fin Apply None o \<open>r = Inr f\<close> True a have "e \<noteq> OutOfFuel" by auto
              with a Inl evaluate_args_mono[OF Suc.IH, of args sc st1]
              have "evaluate_args (evaluate (Suc n)) args sc st1 = (Inl e, st2)" by simp
              with o o' \<open>r = Inr f\<close> Apply None True a Inl show ?thesis by simp
            next
              case (Inr vs)
              with a evaluate_args_mono[OF Suc.IH, of args sc st1]
              have a': "evaluate_args (evaluate (Suc n)) args sc st1 = (Inr vs, st2)" by simp
              from fin Apply None o \<open>r = Inr f\<close> True a Inr
              have "fst (call_function (evaluate n) f vs st2) \<noteq> Inl OutOfFuel" by simp
              from call_function_mono[OF Suc.IH this]
                o o' \<open>r = Inr f\<close> Apply None True a a' Inr show ?thesis by simp
            qed
          qed
        qed
      qed
    qed
  qed
qed

lemma evaluate_more_fuel:
  "fst (evaluate n e sc st) \<noteq> Inl OutOfFuel \<Longrightarrow> evaluate (n + k) e sc st = evaluate n e sc st"
proof (induction k)
  case 0
  show ?case by simp
next
  case (Suc k)
  then have "evaluate (n + k) e sc st = evaluate n e sc st" by simp
  moreover with Suc.prems have "fst (evaluate (n + k) e sc st) \<noteq> Inl OutOfFuel" by simp
  then have "evaluate (Suc (n + k)) e sc st = evaluate (n + k) e sc st"
    using evaluate_Suc_mono[of "n + k"] by (simp add: ev_le_def)
  ultimately show ?case by simp
qed

lemma run_more_fuel:
  "fst (run n p st) \<noteq> Inl OutOfFuel \<Longrightarrow> run (n + k) p st = run n p st"
  by (auto simp: run_def Let_def evaluate_more_fuel split: sum.splits prod.splits)

lemma run_from:
  assumes "fst (run n p st) \<noteq> Inl OutOfFuel"
  shows "fst (run (n + k) p st) = fst (run n p st)"
  using run_more_fuel[OF assms] by simp

text \<open>
  The program at the end of the file evaluates to the array it prints, and leaves
  \<open>topScope\<close> as it was.
\<close>

lemma startup_run:
  "fst (run (4 + k) startup_program (initial_state h)) = Inr (Array [Num 1, Num 2]) \<and>
   console (loaded_state h) = [Array [Num 1, Num 2]] \<and>
   heap (loaded_state h) topScope = heap (initial_state h) topScope \<and>
   root_ok (loaded_state h)"
proof -
  have 1: "fst (run 4 startup_program (initial_state h)) = Inr (Array [Num 1, Num 2])"
    by code_simp
  then have 2: "fst (run (4 + k) startup_program (initial_state h)) = Inr (Array [Num 1, Num 2])"
    by (subst run_from) simp_all
  have 3: "console (loaded_state h) = [Array [Num 1, Num 2]]"
    unfolding loaded_state_def by code_simp
  have 4: "heap (loaded_state h) topScope = heap (initial_state h) topScope"
    unfolding loaded_state_def by code_simp
  have 5: "root_ok (loaded_state h)"
    unfolding loaded_state_def by code_simp
  from 2 3 4 5 show ?thesis by simp
qed

section \<open>Properties of the parser\<close>

lemma parseArgs_at_close: "parseArgs args ('')'' @ q) = Inr (args, '')'' @ q)"
  by (simp add: parseArgs.simps)

text \<open>
  C9. The loop that reads an argument list accepts a comma between the last argument and
  the closing parenthesis. Whatever arguments \<open>args\<close> were read before, when the loop
  reads the argument \<open>arg\<close> and finds, after whitespace, a comma and then, after
  whitespace, the closing parenthesis, it ends with the arguments \<open>args @ [arg]\<close> at that
  parenthesis: the same result as when the parenthesis follows the argument directly. So
  \<^verbatim>\<open>f(e,)\<close> parses to the application that \<^verbatim>\<open>f(e)\<close> parses to.
\<close>

theorem parseArgs_trailing_comma:
  assumes "take 1 p \<noteq> '')''"
    and "parseExpression p = Inr (arg, rest)"
  shows "(skipSpace rest = '','' @ rest' \<and> skipSpace rest' = '')'' @ q \<longrightarrow>
            parseArgs args p = Inr (args @ [arg], '')'' @ q)) \<and>
         (skipSpace rest = '')'' @ q \<longrightarrow>
            parseArgs args p = Inr (args @ [arg], '')'' @ q)) \<and>
         parse ''f(e,)'' = Inr (Apply (Identifier ''f'') [Identifier ''e'']) \<and>
         parse ''f(e)'' = Inr (Apply (Identifier ''f'') [Identifier ''e''])"
proof (intro conjI impI)
  assume a: "skipSpace rest = '','' @ rest' \<and> skipSpace rest' = '')'' @ q"
  have "parseArgs args p = parseArgs (args @ [arg]) ('')'' @ q)"
    using assms a by (subst parseArgs.simps) (simp add: Let_def)
  then show "parseArgs args p = Inr (args @ [arg], '')'' @ q)"
    by (simp only: parseArgs_at_close)
next
  assume a: "skipSpace rest = '')'' @ q"
  have "parseArgs args p = parseArgs (args @ [arg]) ('')'' @ q)"
    using assms a by (subst parseArgs.simps) (simp add: Let_def)
  then show "parseArgs args p = Inr (args @ [arg], '')'' @ q)"
    by (simp only: parseArgs_at_close)
next
  show "parse ''f(e,)'' = Inr (Apply (Identifier ''f'') [Identifier ''e''])"
    by code_simp
next
  show "parse ''f(e)'' = Inr (Apply (Identifier ''f'') [Identifier ''e''])"
    by code_simp
qed

theorem parseArgs_trailing_comma_witness:
  "take 1 ''e,)'' \<noteq> '')'' \<and> parseExpression ''e,)'' = Inr (Identifier ''e'', '',)'') \<and>
   skipSpace '',)'' = '','' @ '')'' \<and> skipSpace '')'' = '')'' @ [] \<and>
   parseArgs [] ''e,)'' = Inr ([] @ [Identifier ''e''], '')'' @ [])"
proof -
  have h1: "take 1 ''e,)'' \<noteq> '')''" by simp
  have h2: "parseExpression ''e,)'' = Inr (Identifier ''e'', '',)'')" by code_simp
  have h3: "skipSpace '',)'' = '','' @ '')'' \<and> skipSpace '')'' = '')'' @ []" by code_simp
  from parseArgs_trailing_comma[OF h1 h2, of "'')''" "[]" "[]"] h3
  have "parseArgs [] ''e,)'' = Inr ([] @ [Identifier ''e''], '')'' @ [])" by blast
  with h1 h2 h3 show ?thesis by blast
qed

lemma decimal_snoc: "decimal (ds @ [c]) = 10 * decimal ds + digit_value c"
  by (simp add: decimal_def)

lemma decimal_sum:
  "decimal ds = (\<Sum>i<length ds. digit_value (ds ! i) * 10 ^ (length ds - Suc i))"
proof (induction ds rule: rev_induct)
  case Nil
  show ?case by (simp add: decimal_def)
next
  case (snoc c ds)
  have "(\<Sum>i<length ds. digit_value ((ds @ [c]) ! i) * 10 ^ (length (ds @ [c]) - Suc i))
      = (\<Sum>i<length ds. 10 * (digit_value (ds ! i) * 10 ^ (length ds - Suc i)))"
  proof (rule sum.cong)
    fix i assume "i \<in> {..<length ds}"
    then have i: "i < length ds" by simp
    then have "length (ds @ [c]) - Suc i = Suc (length ds - Suc i)" by simp
    with i show "digit_value ((ds @ [c]) ! i) * 10 ^ (length (ds @ [c]) - Suc i)
        = 10 * (digit_value (ds ! i) * 10 ^ (length ds - Suc i))"
      by (simp add: nth_append)
  qed simp
  also have "\<dots> = 10 * decimal ds"
    by (simp add: snoc.IH sum_distrib_left)
  finally show ?case by (simp add: decimal_snoc)
qed

lemma round_double_exact: "n \<le> 2 ^ 53 \<Longrightarrow> round_double n = Some n"
proof (cases "n < 2 ^ 53")
  case True
  then show ?thesis by (simp add: round_double_def)
next
  case False
  moreover assume "n \<le> 2 ^ 53"
  ultimately have n: "n = 9007199254740992" by simp
  show ?thesis unfolding n by code_simp
qed

lemma skipSpace_append:
  assumes "\<forall>c\<in>set ws. is_space c" and "p = [] \<or> \<not> is_space (hd p)"
  shows "skipSpace (ws @ p) = p"
  using assms by (cases p) (auto simp: skipSpace_def dropWhile_append3 dropWhile_append2)

lemma digit_not_space: "is_digit c \<Longrightarrow> \<not> is_space c"
  by (auto simp: is_digit_def is_space_def)

lemma digit_is_word: "is_digit c \<Longrightarrow> is_word c"
  by (auto simp: is_digit_def is_word_def)

lemma digit_not_dquote: "is_digit c \<Longrightarrow> c \<noteq> dquote"
  by (auto simp: is_digit_def dquote_def)

lemma word_is_ident_char: "is_word c \<Longrightarrow> is_ident_char c"
  by (auto simp: is_word_def is_ident_char_def is_space_def dquote_def)

lemma takeWhile_digits:
  assumes "\<forall>c\<in>set ds. is_digit c" and "rest = [] \<or> \<not> is_digit (hd rest)"
  shows "takeWhile is_digit (ds @ rest) = ds" and "dropWhile is_digit (ds @ rest) = rest"
  using assms
  by (cases rest; auto simp: takeWhile_append2 takeWhile_append1 dropWhile_append2 dropWhile_append3)+

lemma match_number_digits:
  assumes "ds \<noteq> []" and "\<forall>c\<in>set ds. is_digit c" and "rest = [] \<or> \<not> is_word (hd rest)"
  shows "match_number (ds @ rest) = Some ds"
proof -
  from assms(3) have nd: "rest = [] \<or> \<not> is_digit (hd rest)" using digit_is_word by blast
  show ?thesis
    using assms(1,3) by (simp add: match_number_def takeWhile_digits[OF assms(2) nd] Let_def)
qed

lemma match_number_word:
  assumes "\<forall>c\<in>set ds. is_digit c" and "is_word c" and "\<not> is_digit c"
  shows "match_number (ds @ c # rest) = None"
proof -
  have nd: "c # rest = [] \<or> \<not> is_digit (hd (c # rest))" using assms(3) by simp
  show ?thesis
    using assms(2) by (simp add: match_number_def takeWhile_digits[OF assms(1) nd] Let_def)
qed

lemma digits_then_word_identifier:
  assumes "\<forall>c\<in>set ds. is_digit c" and "is_word c"
  shows "takeWhile is_ident_char (ds @ c # rest) = ds @ c # takeWhile is_ident_char rest"
    and "dropWhile is_ident_char (ds @ c # rest) = dropWhile is_ident_char rest"
proof -
  from assms(1) have d: "\<forall>x\<in>set ds. is_ident_char x"
    using digit_is_word word_is_ident_char by blast
  from assms(2) have c: "is_ident_char c" by (rule word_is_ident_char)
  from d c show "takeWhile is_ident_char (ds @ c # rest) = ds @ c # takeWhile is_ident_char rest"
    by (simp add: takeWhile_append2)
  from d c show "dropWhile is_ident_char (ds @ c # rest) = dropWhile is_ident_char rest"
    by (simp add: dropWhile_append2)
qed

text \<open>
  Above \<open>2 ^ 53\<close> the literal is the nearest double: \<open>2 ^ 53 + 1\<close> lies halfway
  between two doubles and goes to the even one, \<open>2 ^ 53\<close>; \<open>2 ^ 53 + 3\<close> goes up to
  \<open>2 ^ 53 + 4\<close>.
\<close>

lemma Number_of_rounds:
  "Number_of ''9007199254740993'' = NumberLit 9007199254740992"
  "Number_of ''9007199254740995'' = NumberLit 9007199254740996"
  by code_simp+

text \<open>
  C7, amended. Let the input, after leading whitespace, begin with one or more decimal
  digits. When the end of the input or a character that is not a word character (not a
  letter, a digit or an underscore) follows them, the parser reads all the digits as one
  number literal and goes on with the text after them; when no parenthesis follows, the
  literal is the expression read. The value of the literal is \<^verbatim>\<open>Number\<close> of the
  digits, which is the number they denote in base ten when that is at most \<open>2 ^ 53\<close>.
  When a letter or an underscore follows the digits, the number form does not match: the
  digits, that character and the identifier characters after it are read as one
  identifier.
\<close>

theorem number_literal_parsed:
  assumes "\<forall>c\<in>set ws. is_space c"
    and "ds \<noteq> []" and "\<forall>c\<in>set ds. is_digit c"
  shows "(rest = [] \<or> \<not> is_word (hd rest) \<longrightarrow>
            parseExpression (ws @ ds @ rest) = parseApply (Value (Number_of ds)) rest \<and>
            (take 1 (skipSpace rest) \<noteq> ''('' \<longrightarrow>
               parseExpression (ws @ ds @ rest) = Inr (Value (Number_of ds), skipSpace rest))) \<and>
         (decimal ds \<le> 2 ^ 53 \<longrightarrow>
            Number_of ds =
              NumberLit (\<Sum>i<length ds. digit_value (ds ! i) * 10 ^ (length ds - Suc i))) \<and>
         (is_word c \<and> \<not> is_digit c \<longrightarrow>
            parseExpression (ws @ ds @ c # rest') =
              parseApply (Identifier (ds @ c # takeWhile is_ident_char rest'))
                         (dropWhile is_ident_char rest'))"
proof (intro conjI impI)
  have hd: "\<And>r. \<not> is_space (hd (ds @ r))" "\<And>r. hd (ds @ r) \<noteq> dquote"
    using assms(2,3) digit_not_space digit_not_dquote by (cases ds; simp)+
  have sk: "\<And>r. skipSpace (ws @ ds @ r) = ds @ r"
    using assms(1) hd(1) by (intro skipSpace_append) auto
  have ms: "\<And>r. match_string (ds @ r) = None"
    using assms(2) hd(2) by (cases ds) (auto simp: match_string_def)
  {
    assume r: "rest = [] \<or> \<not> is_word (hd rest)"
    have mn: "match_number (ds @ rest) = Some ds"
      using assms(2,3) r by (rule match_number_digits)
    show 1: "parseExpression (ws @ ds @ rest) = parseApply (Value (Number_of ds)) rest"
      by (subst parseExpression.simps) (simp add: sk ms mn)
    assume "take 1 (skipSpace rest) \<noteq> ''(''"
    then have "parseApply (Value (Number_of ds)) rest = Inr (Value (Number_of ds), skipSpace rest)"
      by (subst parseApply.simps) (simp add: Let_def)
    with 1 show "parseExpression (ws @ ds @ rest) = Inr (Value (Number_of ds), skipSpace rest)"
      by simp
  }
  {
    assume "decimal ds \<le> 2 ^ 53"
    then have "Number_of ds = NumberLit (decimal ds)"
      by (simp add: Number_of_def round_double_exact)
    then show "Number_of ds =
        NumberLit (\<Sum>i<length ds. digit_value (ds ! i) * 10 ^ (length ds - Suc i))"
      using decimal_sum[of ds] by simp
  }
  {
    assume c: "is_word c \<and> \<not> is_digit c"
    then have mn: "match_number (ds @ c # rest') = None"
      using assms(3) by (intro match_number_word) auto
    have ne: "ds @ c # takeWhile is_ident_char rest' \<noteq> []" by simp
    from c have mi: "match_identifier (ds @ c # rest') = Some (ds @ c # takeWhile is_ident_char rest')"
      using digits_then_word_identifier(1)[OF assms(3), of c rest']
      by (simp add: match_identifier_def Let_def)
    have dr: "drop (length (ds @ c # takeWhile is_ident_char rest')) (ds @ c # rest')
                = dropWhile is_ident_char rest'"
      using digits_then_word_identifier[OF assms(3), of c rest'] c
        dropWhile_eq_drop[of is_ident_char "ds @ c # rest'"] by simp
    show "parseExpression (ws @ ds @ c # rest') =
              parseApply (Identifier (ds @ c # takeWhile is_ident_char rest'))
                         (dropWhile is_ident_char rest')"
      by (subst parseExpression.simps) (simp only: sk ms mn mi dr Let_def option.case)
  }
qed

theorem number_literal_parsed_witness:
  "list_all is_space '' '' \<and> ''42'' \<noteq> [] \<and> list_all is_digit ''42'' \<and>
   \<not> is_word (hd '', x'') \<and> decimal ''42'' \<le> 2 ^ 53 \<and>
   is_word CHR ''a'' \<and> \<not> is_digit CHR ''a'' \<and>
   parseExpression ('' '' @ ''42'' @ '', x'') = Inr (Value (NumberLit 42), '', x'') \<and>
   parseExpression ('' '' @ ''42'' @ CHR ''a'' # ''b,'') = Inr (Identifier ''42ab'', '','')"
proof -
  have h1: "\<forall>c\<in>set '' ''. is_space c" by (simp add: is_space_def)
  have h2: "''42'' \<noteq> []" by simp
  have h3: "\<forall>c\<in>set ''42''. is_digit c" by (simp add: is_digit_def)
  have h4: "'', x'' = [] \<or> \<not> is_word (hd '', x'')" by (simp add: is_word_def)
  have h5: "decimal ''42'' \<le> 2 ^ 53" by (simp add: decimal_def digit_value_def)
  have h6: "is_word CHR ''a'' \<and> \<not> is_digit CHR ''a''" by (simp add: is_word_def is_digit_def)
  note t = number_literal_parsed[OF h1 h2 h3, where rest="'', x''" and c="CHR ''a''" and rest'="''b,''"]
  have s: "skipSpace '', x'' = '', x''" by (simp add: skipSpace_def is_space_def)
  have p: "take 1 (skipSpace '', x'') \<noteq> ''(''" by (simp add: s)
  from t h4 p have "parseExpression ('' '' @ ''42'' @ '', x'') =
          Inr (Value (Number_of ''42''), skipSpace '', x'')" by blast
  moreover from t h5 have "Number_of ''42'' =
      NumberLit (\<Sum>i<length ''42''. digit_value (''42'' ! i) * 10 ^ (length ''42'' - Suc i))"
    by blast
  then have "Number_of ''42'' = NumberLit 42"
    by (simp add: digit_value_def lessThan_Suc)
  ultimately have a: "parseExpression ('' '' @ ''42'' @ '', x'') = Inr (Value (NumberLit 42), '', x'')"
    by (simp only: s)
  from t h6 have "parseExpression ('' '' @ ''42'' @ CHR ''a'' # ''b,'') =
      parseApply (Identifier (''42'' @ CHR ''a'' # takeWhile is_ident_char ''b,''))
                 (dropWhile is_ident_char ''b,'')" by blast
  moreover have "parseApply (Identifier (''42'' @ CHR ''a'' # takeWhile is_ident_char ''b,''))
                 (dropWhile is_ident_char ''b,'') = Inr (Identifier ''42ab'', '','')"
    by code_simp
  ultimately have b: "parseExpression ('' '' @ ''42'' @ CHR ''a'' # ''b,'') = Inr (Identifier ''42ab'', '','')"
    by simp
  from h1 h2 h3 h4 h5 h6 a b show ?thesis by (simp add: list_all_iff)
qed

text \<open>
  C7, as the code has it. In \<^verbatim>\<open>12a\<close> the digits are followed by a character that is
  not a digit, and the parser reads the identifier \<^verbatim>\<open>12a\<close>: the number expression
  ends with \<^verbatim>\<open>\b\<close>, and there is no word boundary between \<^verbatim>\<open>2\<close> and \<^verbatim>\<open>a\<close>.
\<close>

theorem digits_absorbed_into_identifier:
  "parseExpression ''12a'' = Inr (Identifier ''12a'', [])"
  by code_simp

text \<open>
  C8, as the code has it. The input is \<^verbatim>\<open>a"b\<close>. The identifier read is \<^verbatim>\<open>a\<close> and the
  text from the double quote on is left over, although all three characters are outside
  whitespace and \<^verbatim>\<open>( ) , #\<close>.
\<close>

theorem identifier_stops_at_double_quote:
  "parseExpression [CHR ''a'', CHR 0x22, CHR ''b''] = Inr (Identifier ''a'', [CHR 0x22, CHR ''b'']) \<and>
   takeWhile claimed_identifier_char [CHR ''a'', CHR 0x22, CHR ''b''] = [CHR ''a'', CHR 0x22, CHR ''b'']"
  by code_simp

text \<open>
  C8, amended. When the input, after leading whitespace, matches neither the string
  literal nor the number literal, the parser takes the longest prefix of characters none
  of which is whitespace, \<^verbatim>\<open>(\<close>, \<^verbatim>\<open>)\<close>, \<^verbatim>\<open>,\<close>, \<^verbatim>\<open>#\<close> or the double quote. A nonempty
  prefix is read as an identifier and parsing goes on with the text after it; with an
  empty prefix the parser fails with a syntax error.
\<close>

theorem identifier_parsed:
  assumes "match_string (skipSpace p) = None" and "match_number (skipSpace p) = None"
  shows "(takeWhile is_ident_char (skipSpace p) \<noteq> [] \<longrightarrow>
            parseExpression p =
              parseApply (Identifier (takeWhile is_ident_char (skipSpace p)))
                         (dropWhile is_ident_char (skipSpace p))) \<and>
         (takeWhile is_ident_char (skipSpace p) = [] \<longrightarrow>
            parseExpression p =
              Inl (SyntaxError (''Unexpected syntax: '' @
                    (if skipSpace p = [] then ''you typed nothing'' else skipSpace p)))) \<and>
         (is_ident_char c \<longleftrightarrow> \<not> is_space c \<and> c \<notin> set ''(),#'' \<and> c \<noteq> CHR 0x22)"
  using assms
  by (subst parseExpression.simps, subst parseExpression.simps)
     (auto simp: match_identifier_def Let_def dropWhile_eq_drop[symmetric] is_ident_char_def dquote_def)

theorem identifier_parsed_witness:
  "match_string (skipSpace '' x+1 y'') = None \<and> match_number (skipSpace '' x+1 y'') = None \<and>
   takeWhile is_ident_char (skipSpace '' x+1 y'') \<noteq> [] \<and>
   parseExpression '' x+1 y'' = Inr (Identifier ''x+1'', ''y'')"
proof -
  have h1: "match_string (skipSpace '' x+1 y'') = None" by code_simp
  have h2: "match_number (skipSpace '' x+1 y'') = None" by code_simp
  have t: "takeWhile is_ident_char (skipSpace '' x+1 y'') = ''x+1''" by code_simp
  have d: "dropWhile is_ident_char (skipSpace '' x+1 y'') = '' y''" by code_simp
  have a: "parseApply (Identifier ''x+1'') '' y'' = Inr (Identifier ''x+1'', ''y'')" by code_simp
  from identifier_parsed[OF h1 h2] t d a
  have "parseExpression '' x+1 y'' = Inr (Identifier ''x+1'', ''y'')" by simp
  with h1 h2 t show ?thesis by simp
qed

section \<open>Properties of the built-in functions\<close>




section \<open>Properties of the evaluator\<close>

lemma set_property_heap_same:
  "map_of (bindings (heap (set_property a x v st) a)) = (map_of (bindings (heap st a)))(x \<mapsto> v)"
  by (simp add: set_property_def update_conv')

lemma set_property_frame:
  "parent (heap (set_property a x v st) b) = parent (heap st b)"
  "b \<noteq> a \<Longrightarrow> heap (set_property a x v st) b = heap st b"
  "fresh (set_property a x v st) = fresh st"
  "console (set_property a x v st) = console st"
  by (simp_all add: set_property_def)

lemma special_form_of_None_iff:
  "special_form_of operator = None \<longleftrightarrow>
     \<not> (\<exists>name. operator = Identifier name \<and> name \<in> set [''if'', ''while'', ''do'', ''define'', ''fun''])"
  by (cases operator) (auto simp: specialForms_def)

lemma evaluate_args_chain:
  assumes "length vs = length args" and "length sts = Suc (length args)"
    and "\<forall>i<length args. ev (args ! i) sc (sts ! i) = (Inr (vs ! i), sts ! Suc i)"
  shows "evaluate_args ev args sc (sts ! 0) = (Inr vs, sts ! length args)"
  using assms
proof (induction args arbitrary: vs sts)
  case Nil
  then show ?case by simp
next
  case (Cons a args)
  from Cons.prems(1) obtain v vs' where vs: "vs = v # vs'" by (cases vs) auto
  from Cons.prems(2) obtain s0 sts' where sts: "sts = s0 # sts'" by (cases sts) auto
  from Cons.prems(3)[rule_format, of 0] vs sts
  have a: "ev a sc s0 = (Inr v, sts' ! 0)" by simp
  have "\<forall>i<length args. ev (args ! i) sc (sts' ! i) = (Inr (vs' ! i), sts' ! Suc i)"
  proof (intro allI impI)
    fix i assume "i < length args"
    with Cons.prems(3)[rule_format, of "Suc i"] vs sts
    show "ev (args ! i) sc (sts' ! i) = (Inr (vs' ! i), sts' ! Suc i)" by simp
  qed
  with Cons.IH[of vs' sts'] Cons.prems(1,2) vs sts
  have "evaluate_args ev args sc (sts' ! 0) = (Inr vs', sts' ! length args)" by simp
  with a vs sts show ?case by simp
qed

lemma evaluate_args_stops:
  assumes "j < length args" and "length vs = j" and "length sts = Suc j"
    and "\<forall>i<j. ev (args ! i) sc (sts ! i) = (Inr (vs ! i), sts ! Suc i)"
    and "ev (args ! j) sc (sts ! j) = (Inl err, st')"
  shows "evaluate_args ev args sc (sts ! 0) = (Inl err, st')"
  using assms
proof (induction args arbitrary: j vs sts)
  case Nil
  then show ?case by simp
next
  case (Cons a args)
  show ?case
  proof (cases j)
    case 0
    with Cons.prems show ?thesis by simp
  next
    case (Suc j')
    from Cons.prems(2) Suc obtain v vs' where vs: "vs = v # vs'" by (cases vs) auto
    from Cons.prems(3) obtain s0 sts' where sts: "sts = s0 # sts'" by (cases sts) auto
    from Cons.prems(4)[rule_format, of 0] Suc vs sts
    have a: "ev a sc s0 = (Inr v, sts' ! 0)" by simp
    have "\<forall>i<j'. ev (args ! i) sc (sts' ! i) = (Inr (vs' ! i), sts' ! Suc i)"
    proof (intro allI impI)
      fix i assume "i < j'"
      with Cons.prems(4)[rule_format, of "Suc i"] Suc vs sts
      show "ev (args ! i) sc (sts' ! i) = (Inr (vs' ! i), sts' ! Suc i)" by simp
    qed
    with Cons.IH[of j' vs' sts'] Cons.prems Suc vs sts
    have "evaluate_args ev args sc (sts' ! 0) = (Inl err, st')" by simp
    with a vs sts show ?thesis by simp
  qed
qed

text \<open>
  C1. Let the operator of an application be no identifier that names a special form. The
  operator is evaluated first, in the current scope, and an exception of it ends the
  evaluation. When its value is not a function, the evaluation fails with the TypeError
  \<^verbatim>\<open>Applying a non-function.\<close> in the state that the operator left: no argument was
  evaluated. When it is a function and the arguments evaluate one after the other, from
  left to right in the current scope, each in the state left by the one before, to the
  values \<open>vs\<close>, the function is called with \<open>vs\<close> in the state left by the last
  argument, and the outcome of the call is the outcome of the application. An exception
  of an argument ends the evaluation before the arguments after it are evaluated.
\<close>

theorem application_evaluation:
  assumes "\<not> (\<exists>name. operator = Identifier name \<and>
                  name \<in> set [''if'', ''while'', ''do'', ''define'', ''fun''])"
  shows "(evaluate n operator scope st = (Inl err, st1) \<longrightarrow>
            evaluate (Suc n) (Apply operator args) scope st = (Inl err, st1)) \<and>
         (evaluate n operator scope st = (Inr f, st1) \<and> \<not> is_function f \<longrightarrow>
            evaluate (Suc n) (Apply operator args) scope st =
              (Inl (TypeError ''Applying a non-function.''), st1)) \<and>
         (evaluate n operator scope st = (Inr f, st1) \<and> is_function f \<and>
          length vs = length args \<and> length sts = Suc (length args) \<and> sts ! 0 = st1 \<and>
          (\<forall>i<length args.
              evaluate n (args ! i) scope (sts ! i) = (Inr (vs ! i), sts ! Suc i)) \<longrightarrow>
            evaluate (Suc n) (Apply operator args) scope st =
              call_function (evaluate n) f vs (sts ! length args)) \<and>
         (evaluate n operator scope st = (Inr f, st1) \<and> is_function f \<and>
          j < length args \<and> length vs = j \<and> length sts = Suc j \<and> sts ! 0 = st1 \<and>
          (\<forall>i<j. evaluate n (args ! i) scope (sts ! i) = (Inr (vs ! i), sts ! Suc i)) \<and>
          evaluate n (args ! j) scope (sts ! j) = (Inl err, st2) \<longrightarrow>
            evaluate (Suc n) (Apply operator args) scope st = (Inl err, st2))"
proof -
  from assms have sf: "special_form_of operator = None"
    by (simp add: special_form_of_None_iff)
  show ?thesis
  proof (intro conjI impI)
    assume "evaluate n operator scope st = (Inl err, st1)"
    with sf show "evaluate (Suc n) (Apply operator args) scope st = (Inl err, st1)" by simp
  next
    assume "evaluate n operator scope st = (Inr f, st1) \<and> \<not> is_function f"
    with sf show "evaluate (Suc n) (Apply operator args) scope st =
              (Inl (TypeError ''Applying a non-function.''), st1)" by simp
  next
    assume a: "evaluate n operator scope st = (Inr f, st1) \<and> is_function f \<and>
          length vs = length args \<and> length sts = Suc (length args) \<and> sts ! 0 = st1 \<and>
          (\<forall>i<length args.
              evaluate n (args ! i) scope (sts ! i) = (Inr (vs ! i), sts ! Suc i))"
    then have "evaluate_args (evaluate n) args scope (sts ! 0) = (Inr vs, sts ! length args)"
      by (intro evaluate_args_chain) auto
    with a sf show "evaluate (Suc n) (Apply operator args) scope st =
              call_function (evaluate n) f vs (sts ! length args)" by simp
  next
    assume a: "evaluate n operator scope st = (Inr f, st1) \<and> is_function f \<and>
          j < length args \<and> length vs = j \<and> length sts = Suc j \<and> sts ! 0 = st1 \<and>
          (\<forall>i<j. evaluate n (args ! i) scope (sts ! i) = (Inr (vs ! i), sts ! Suc i)) \<and>
          evaluate n (args ! j) scope (sts ! j) = (Inl err, st2)"
    then have "evaluate_args (evaluate n) args scope (sts ! 0) = (Inl err, st2)"
      by (intro evaluate_args_stops[where j=j and vs=vs]) auto
    with a sf show "evaluate (Suc n) (Apply operator args) scope st = (Inl err, st2)" by simp
  qed
qed

theorem application_evaluation_witness:
  "\<not> (\<exists>name. Identifier ''+'' = Identifier name \<and> name \<in> set [''if'', ''while'', ''do'', ''define'', ''fun'']) \<and>
   evaluate 1 (Identifier ''+'') 0 (initial_state no_answers) = (Inr (Native ''+''), (initial_state no_answers)) \<and>
   is_function (Native ''+'') \<and>
   evaluate 1 (Value (NumberLit 3)) 0 (initial_state no_answers) = (Inr (Num 3), (initial_state no_answers)) \<and>
   evaluate 1 (Value (NumberLit 4)) 0 (initial_state no_answers) = (Inr (Num 4), (initial_state no_answers)) \<and>
   evaluate (Suc 1) (Apply (Identifier ''+'') [Value (NumberLit 3), Value (NumberLit 4)]) 0
     (initial_state no_answers) = (Inr (Num 7), (initial_state no_answers))"
proof -
  have h0: "\<not> (\<exists>name. Identifier ''+'' = Identifier name \<and>
                name \<in> set [''if'', ''while'', ''do'', ''define'', ''fun''])" by simp
  have h1: "evaluate 1 (Identifier ''+'') 0 (initial_state no_answers) = (Inr (Native ''+''), (initial_state no_answers))"
    by (simp add: get_property.simps initial_state_def topScope_def topScope_bindings_def)
  have h2: "is_function (Native ''+'')" by simp
  have h3: "\<forall>i<length [Value (NumberLit 3), Value (NumberLit 4)].
       evaluate 1 ([Value (NumberLit 3), Value (NumberLit 4)] ! i) 0
         ([(initial_state no_answers), (initial_state no_answers), (initial_state no_answers)] ! i) =
       (Inr ([Num 3, Num 4] ! i), [(initial_state no_answers), (initial_state no_answers), (initial_state no_answers)] ! Suc i)"
    by (auto simp: less_Suc_eq)
  have c: "call_function (evaluate 1) (Native ''+'') [Num 3, Num 4] (initial_state no_answers)
        = (Inr (Num 7), (initial_state no_answers))"
    by (simp add: native_def nth_arg_def exact_result_def safe_int_def)
  from application_evaluation[OF h0, where n=1 and scope=0 and st="initial_state no_answers"
      and f="Native ''+''" and ?st1.0="initial_state no_answers"
      and args="[Value (NumberLit 3), Value (NumberLit 4)]" and vs="[Num 3, Num 4]"
      and sts="[(initial_state no_answers), (initial_state no_answers), (initial_state no_answers)]"] h1 h2 h3
  have "evaluate (Suc 1) (Apply (Identifier ''+'') [Value (NumberLit 3), Value (NumberLit 4)]) 0
     (initial_state no_answers) = call_function (evaluate 1) (Native ''+'') [Num 3, Num 4]
       ([(initial_state no_answers), (initial_state no_answers), (initial_state no_answers)] ! length [Value (NumberLit 3), Value (NumberLit 4)])"
    by simp
  with c have "evaluate (Suc 1) (Apply (Identifier ''+'') [Value (NumberLit 3), Value (NumberLit 4)]) 0
     (initial_state no_answers) = (Inr (Num 7), (initial_state no_answers))" by simp
  moreover have "evaluate 1 (Value (NumberLit 3)) 0 (initial_state no_answers) = (Inr (Num 3), (initial_state no_answers))"
    "evaluate 1 (Value (NumberLit 4)) 0 (initial_state no_answers) = (Inr (Num 4), (initial_state no_answers))"
    by simp_all
  ultimately show ?thesis using h0 h1 h2 by blast
qed

text \<open>
  C10. In every scope and every state, an application whose operator is the bare
  identifier \<^verbatim>\<open>if\<close>, \<^verbatim>\<open>while\<close>, \<^verbatim>\<open>do\<close>, \<^verbatim>\<open>define\<close> or \<^verbatim>\<open>fun\<close> is evaluated
  by the handler of that special form, applied to the unevaluated arguments. This holds
  also in a state in which the current scope binds that name, where looking the name up
  would find the bound value: the operator is not looked up. So after
  \<^verbatim>\<open>define(if, fun(a, b, c, 0))\<close> the expression \<^verbatim>\<open>if(true, 1, 2)\<close> is still the
  conditional and evaluates to 1.
\<close>

theorem special_form_priority:
  "evaluate (Suc n) (Apply (Identifier ''if'') args) scope st =
     specialForms_if (evaluate n) args scope st \<and>
   evaluate (Suc n) (Apply (Identifier ''while'') args) scope st =
     specialForms_while n (evaluate n) args scope st \<and>
   evaluate (Suc n) (Apply (Identifier ''do'') args) scope st =
     specialForms_do (evaluate n) args scope st \<and>
   evaluate (Suc n) (Apply (Identifier ''define'') args) scope st =
     specialForms_define (evaluate n) args scope st \<and>
   evaluate (Suc n) (Apply (Identifier ''fun'') args) scope st =
     specialForms_fun (evaluate n) args scope st \<and>
   (name \<in> set [''if'', ''while'', ''do'', ''define'', ''fun''] \<longrightarrow>
      get_property (heap (set_property scope name v st)) scope name = Some v \<and>
      (\<exists>form. specialForms name = Some form \<and>
         evaluate (Suc n) (Apply (Identifier name) args) scope (set_property scope name v st) =
           form n (evaluate n) args scope (set_property scope name v st))) \<and>
   fst (run (5 + k) ''do(define(if, fun(a, b, c, 0)), if(true, 1, 2))'' (initial_state h))
     = Inr (Num 1)"
proof -
  have c: "fst (run 5 ''do(define(if, fun(a, b, c, 0)), if(true, 1, 2))'' (initial_state h))
           = Inr (Num 1)"
    by code_simp
  then have 1: "fst (run (5 + k) ''do(define(if, fun(a, b, c, 0)), if(true, 1, 2))'' (initial_state h))
           = Inr (Num 1)"
    by (subst run_from) simp_all
  have 2: "get_property (heap (set_property scope name v st)) scope name = Some v"
    by (subst get_property.simps) (simp add: set_property_heap_same)
  have 3: "name \<in> set [''if'', ''while'', ''do'', ''define'', ''fun''] \<longrightarrow>
      (\<exists>form. specialForms name = Some form \<and>
         evaluate (Suc n) (Apply (Identifier name) args) scope (set_property scope name v st) =
           form n (evaluate n) args scope (set_property scope name v st))"
    by (auto simp: specialForms_def)
  from 1 2 3 show ?thesis by (simp add: specialForms_def)
qed

theorem special_form_priority_witness:
  "''if'' \<in> set [''if'', ''while'', ''do'', ''define'', ''fun''] \<and>
   get_property (heap (set_property 1 ''if'' (Native ''array'') (initial_state no_answers))) 1 ''if''
     = Some (Native ''array'') \<and>
   fst (evaluate (Suc 1) (Apply (Identifier ''if'')
          [Value (StringLit ''c''), Value (StringLit ''t''), Value (StringLit ''e'')]) 1
          (set_property 1 ''if'' (Native ''array'') (initial_state no_answers))) = Inr (Str ''t'')"
proof -
  have h: "''if'' \<in> set [''if'', ''while'', ''do'', ''define'', ''fun'']" by simp
  from special_form_priority[where n=1 and scope=1
      and args="[Value (StringLit ''c''), Value (StringLit ''t''), Value (StringLit ''e'')]"
      and st="set_property 1 ''if'' (Native ''array'') (initial_state no_answers)"]
  have e: "evaluate (Suc 1) (Apply (Identifier ''if'')
          [Value (StringLit ''c''), Value (StringLit ''t''), Value (StringLit ''e'')]) 1
          (set_property 1 ''if'' (Native ''array'') (initial_state no_answers))
      = specialForms_if (evaluate 1)
          [Value (StringLit ''c''), Value (StringLit ''t''), Value (StringLit ''e'')] 1
          (set_property 1 ''if'' (Native ''array'') (initial_state no_answers))"
    by blast
  from special_form_priority[where name="''if''" and scope=1 and v="Native ''array''"
      and st="initial_state no_answers"] h
  have g: "get_property (heap (set_property 1 ''if'' (Native ''array'') (initial_state no_answers))) 1 ''if''
     = Some (Native ''array'')" by blast
  from e have "fst (evaluate (Suc 1) (Apply (Identifier ''if'')
          [Value (StringLit ''c''), Value (StringLit ''t''), Value (StringLit ''e'')]) 1
          (set_property 1 ''if'' (Native ''array'') (initial_state no_answers))) = Inr (Str ''t'')"
    by (simp add: specialForms_if_def)
  with h g show ?thesis by blast
qed

text \<open>
  C2. In every scope, \<^verbatim>\<open>if\<close> given a number of arguments other than 3 fails with the
  SyntaxError \<^verbatim>\<open>Wrong number of arguments to if\<close>. Given three, it evaluates the first;
  an exception of it ends the evaluation. When the value is not the boolean false, the
  outcome is that of the second argument, evaluated in the state left by the first,
  whatever the third argument is; when it is the boolean false, the outcome is that of the
  third, whatever the second is. So \<^verbatim>\<open>if(true, 1, undefinedName)\<close> evaluates to 1 under
  every bound from 2 on.
\<close>

theorem if_form:
  "(length args \<noteq> 3 \<longrightarrow>
      evaluate (Suc n) (Apply (Identifier ''if'') args) scope st =
        (Inl (SyntaxError ''Wrong number of arguments to if''), st)) \<and>
   (evaluate n c scope st = (Inl err, st1) \<longrightarrow>
      evaluate (Suc n) (Apply (Identifier ''if'') [c, t, e]) scope st = (Inl err, st1)) \<and>
   (evaluate n c scope st = (Inr v, st1) \<and> v \<noteq> Bool False \<longrightarrow>
      evaluate (Suc n) (Apply (Identifier ''if'') [c, t, e]) scope st = evaluate n t scope st1) \<and>
   (evaluate n c scope st = (Inr (Bool False), st1) \<longrightarrow>
      evaluate (Suc n) (Apply (Identifier ''if'') [c, t, e]) scope st = evaluate n e scope st1) \<and>
   fst (run (2 + k) ''if(true, 1, undefinedName)'' (initial_state h)) = Inr (Num 1)"
proof -
  have c: "fst (run 2 ''if(true, 1, undefinedName)'' (initial_state h)) = Inr (Num 1)"
    by code_simp
  then have "fst (run (2 + k) ''if(true, 1, undefinedName)'' (initial_state h)) = Inr (Num 1)"
    by (subst run_from) simp_all
  then show ?thesis
    by (auto simp: specialForms_def specialForms_if_def)
qed

theorem if_form_witness:
  "length [Value (NumberLit 1)] \<noteq> 3 \<and>
   evaluate (Suc 0) (Apply (Identifier ''if'') [Value (NumberLit 1)]) 1 (initial_state no_answers) =
        (Inl (SyntaxError ''Wrong number of arguments to if''), (initial_state no_answers)) \<and>
   evaluate 1 (Identifier ''true'') 0 (initial_state no_answers) = (Inr (Bool True), (initial_state no_answers)) \<and>
   Bool True \<noteq> Bool False \<and>
   evaluate (Suc 1) (Apply (Identifier ''if'')
       [Identifier ''true'', Value (NumberLit 1), Identifier ''undefinedName'']) 0 (initial_state no_answers)
     = (Inr (Num 1), (initial_state no_answers))"
proof -
  have h1: "length [Value (NumberLit 1)] \<noteq> 3" by simp
  have h2: "evaluate 1 (Identifier ''true'') 0 (initial_state no_answers) = (Inr (Bool True), (initial_state no_answers))"
    by (simp add: get_property.simps initial_state_def topScope_def topScope_bindings_def)
  have h3: "Bool True \<noteq> Bool False" by simp
  have e: "evaluate 1 (Value (NumberLit 1)) 0 (initial_state no_answers) = (Inr (Num 1), (initial_state no_answers))"
    by simp
  from if_form[where args="[Value (NumberLit 1)]" and n=0 and scope=1 and st="initial_state no_answers"] h1
  have a: "evaluate (Suc 0) (Apply (Identifier ''if'') [Value (NumberLit 1)]) 1 (initial_state no_answers) =
        (Inl (SyntaxError ''Wrong number of arguments to if''), (initial_state no_answers))" by blast
  from if_form[where n=1 and c="Identifier ''true''" and scope=0 and st="initial_state no_answers"
      and v="Bool True" and ?st1.0="initial_state no_answers"
      and t="Value (NumberLit 1)" and e="Identifier ''undefinedName''"] h2 h3
  have "evaluate (Suc 1) (Apply (Identifier ''if'')
       [Identifier ''true'', Value (NumberLit 1), Identifier ''undefinedName'']) 0 (initial_state no_answers)
     = evaluate 1 (Value (NumberLit 1)) 0 (initial_state no_answers)" by blast
  with e a h1 h2 h3 show ?thesis by simp
qed

text \<open>
  C4. In every scope, \<^verbatim>\<open>define\<close> fails with the SyntaxError
  \<^verbatim>\<open>Incorrect use of define\<close> when it is not given two arguments or the first is not an
  identifier. Otherwise it evaluates the second argument in the given scope; an exception
  of it ends the evaluation. With the value \<open>v\<close> it returns \<open>v\<close>, and in the state it
  leaves the given scope object itself binds the name to \<open>v\<close>, keeps its other bindings
  and its prototype, and every other scope object, so every ancestor, is as the second
  argument left it. So a \<^verbatim>\<open>define(x, 2)\<close> in the local scope of a function leaves the
  \<^verbatim>\<open>x\<close> of the enclosing scope at 1.
\<close>

theorem define_form:
  "(length args \<noteq> 2 \<or> (length args = 2 \<and> \<not> is_identifier (hd args)) \<longrightarrow>
      evaluate (Suc n) (Apply (Identifier ''define'') args) scope st =
        (Inl (SyntaxError ''Incorrect use of define''), st)) \<and>
   (evaluate n e scope st = (Inl err, st1) \<longrightarrow>
      evaluate (Suc n) (Apply (Identifier ''define'') [Identifier x, e]) scope st = (Inl err, st1)) \<and>
   (evaluate n e scope st = (Inr v, st1) \<longrightarrow>
      (\<exists>st2. evaluate (Suc n) (Apply (Identifier ''define'') [Identifier x, e]) scope st = (Inr v, st2) \<and>
         map_of (bindings (heap st2 scope)) x = Some v \<and>
         (\<forall>y. y \<noteq> x \<longrightarrow> map_of (bindings (heap st2 scope)) y = map_of (bindings (heap st1 scope)) y) \<and>
         parent (heap st2 scope) = parent (heap st1 scope) \<and>
         (\<forall>a. a \<noteq> scope \<longrightarrow> heap st2 a = heap st1 a) \<and>
         fresh st2 = fresh st1 \<and> console st2 = console st1)) \<and>
   fst (run (6 + k) ''do(define(x, 1), fun(define(x, 2))(), x)'' (initial_state h)) = Inr (Num 1)"
proof -
  have c: "fst (run 6 ''do(define(x, 1), fun(define(x, 2))(), x)'' (initial_state h)) = Inr (Num 1)"
    by code_simp
  then have 4: "fst (run (6 + k) ''do(define(x, 1), fun(define(x, 2))(), x)'' (initial_state h)) = Inr (Num 1)"
    by (subst run_from) simp_all
  have 1: "length args \<noteq> 2 \<or> (length args = 2 \<and> \<not> is_identifier (hd args)) \<longrightarrow>
      evaluate (Suc n) (Apply (Identifier ''define'') args) scope st =
        (Inl (SyntaxError ''Incorrect use of define''), st)"
    by (cases args) (auto simp: specialForms_def specialForms_define_def)
  have 2: "evaluate n e scope st = (Inl err, st1) \<longrightarrow>
      evaluate (Suc n) (Apply (Identifier ''define'') [Identifier x, e]) scope st = (Inl err, st1)"
    by (simp add: specialForms_def specialForms_define_def)
  have 3: "evaluate n e scope st = (Inr v, st1) \<longrightarrow>
      (\<exists>st2. evaluate (Suc n) (Apply (Identifier ''define'') [Identifier x, e]) scope st = (Inr v, st2) \<and>
         map_of (bindings (heap st2 scope)) x = Some v \<and>
         (\<forall>y. y \<noteq> x \<longrightarrow> map_of (bindings (heap st2 scope)) y = map_of (bindings (heap st1 scope)) y) \<and>
         parent (heap st2 scope) = parent (heap st1 scope) \<and>
         (\<forall>a. a \<noteq> scope \<longrightarrow> heap st2 a = heap st1 a) \<and>
         fresh st2 = fresh st1 \<and> console st2 = console st1)"
  proof
    assume e: "evaluate n e scope st = (Inr v, st1)"
    then have "evaluate (Suc n) (Apply (Identifier ''define'') [Identifier x, e]) scope st
        = (Inr v, set_property scope x v st1)"
      by (simp add: specialForms_def specialForms_define_def)
    then show "\<exists>st2. evaluate (Suc n) (Apply (Identifier ''define'') [Identifier x, e]) scope st = (Inr v, st2) \<and>
         map_of (bindings (heap st2 scope)) x = Some v \<and>
         (\<forall>y. y \<noteq> x \<longrightarrow> map_of (bindings (heap st2 scope)) y = map_of (bindings (heap st1 scope)) y) \<and>
         parent (heap st2 scope) = parent (heap st1 scope) \<and>
         (\<forall>a. a \<noteq> scope \<longrightarrow> heap st2 a = heap st1 a) \<and>
         fresh st2 = fresh st1 \<and> console st2 = console st1"
      by (intro exI[of _ "set_property scope x v st1"])
         (simp add: set_property_heap_same set_property_frame)
  qed
  from 1 2 3 4 show ?thesis by blast
qed

theorem define_form_witness:
  "evaluate 1 (Value (NumberLit 5)) 1 (initial_state no_answers) = (Inr (Num 5), (initial_state no_answers)) \<and>
   (\<exists>st2. evaluate (Suc 1) (Apply (Identifier ''define'') [Identifier ''true'', Value (NumberLit 5)])
            1 (initial_state no_answers) = (Inr (Num 5), st2) \<and>
      map_of (bindings (heap st2 1)) ''true'' = Some (Num 5) \<and>
      heap st2 0 = heap (initial_state no_answers) 0)"
proof -
  have h: "evaluate 1 (Value (NumberLit 5)) 1 (initial_state no_answers) = (Inr (Num 5), (initial_state no_answers))"
    by simp
  from define_form[where n=1 and e="Value (NumberLit 5)" and scope=1 and st="initial_state no_answers"
      and v="Num 5" and ?st1.0="initial_state no_answers" and x="''true''"] h
  obtain st2 where
    "evaluate (Suc 1) (Apply (Identifier ''define'') [Identifier ''true'', Value (NumberLit 5)])
            1 (initial_state no_answers) = (Inr (Num 5), st2)"
    "map_of (bindings (heap st2 1)) ''true'' = Some (Num 5)"
    "\<forall>a. a \<noteq> 1 \<longrightarrow> heap st2 a = heap (initial_state no_answers) a"
    by blast
  then have "evaluate (Suc 1) (Apply (Identifier ''define'') [Identifier ''true'', Value (NumberLit 5)])
            1 (initial_state no_answers) = (Inr (Num 5), st2) \<and>
      map_of (bindings (heap st2 1)) ''true'' = Some (Num 5) \<and>
      heap st2 0 = heap (initial_state no_answers) 0" by simp
  with h show ?thesis by blast
qed

lemma bind_params_Nil [simp]:
  "bind_params l [] vs st = st" "bind_params l ps [] st = st"
  by (simp_all add: bind_params_def)

lemma bind_params_Cons [simp]:
  "bind_params l (p # ps) (v # vs) st = bind_params l ps vs (set_property l p v st)"
  by (simp add: bind_params_def)

lemma bind_params_frame:
  "parent (heap (bind_params l ps vs st) b) = parent (heap st b) \<and>
   (b \<noteq> l \<longrightarrow> heap (bind_params l ps vs st) b = heap st b) \<and>
   fresh (bind_params l ps vs st) = fresh st \<and>
   console (bind_params l ps vs st) = console st"
proof (induction ps arbitrary: vs st)
  case Nil
  show ?case by simp
next
  case (Cons p ps)
  show ?case
  proof (cases vs)
    case Nil
    then show ?thesis by simp
  next
    case (Cons v vs')
    with Cons.IH[of vs' "set_property l p v st"] show ?thesis
      by (simp add: set_property_frame)
  qed
qed

lemma bind_params_other:
  "x \<notin> set ps \<Longrightarrow>
     map_of (bindings (heap (bind_params l ps vs st) l)) x = map_of (bindings (heap st l)) x"
proof (induction ps arbitrary: vs st)
  case Nil
  show ?case by simp
next
  case (Cons p ps)
  show ?case
  proof (cases vs)
    case Nil
    then show ?thesis by simp
  next
    case (Cons v vs')
    with Cons.IH[of vs' "set_property l p v st"] Cons.prems show ?thesis
      by (simp add: set_property_heap_same)
  qed
qed

lemma bind_params_lookup:
  "length vs = length ps \<Longrightarrow> i < length ps \<Longrightarrow> ps ! i \<notin> set (drop (Suc i) ps) \<Longrightarrow>
     map_of (bindings (heap (bind_params l ps vs st) l)) (ps ! i) = Some (vs ! i)"
proof (induction ps arbitrary: vs st i)
  case Nil
  then show ?case by simp
next
  case (Cons p ps)
  from Cons.prems(1) obtain v vs' where vs: "vs = v # vs'" by (cases vs) auto
  show ?case
  proof (cases i)
    case 0
    with Cons.prems have "p \<notin> set ps" by simp
    from bind_params_other[OF this, of l vs' "set_property l p v st"] 0 vs
    show ?thesis by (simp add: set_property_heap_same)
  next
    case (Suc j)
    with Cons.IH[of vs' j "set_property l p v st"] Cons.prems vs show ?thesis by simp
  qed
qed

lemma map_name_of_Identifier: "map (name_of \<circ> Identifier) ps = ps"
  by (induction ps) auto

text \<open>
  C3. \<^verbatim>\<open>fun\<close> applied to parameter names and a body evaluates, without changing the
  state, to a function that holds the names, the body and the scope in which \<^verbatim>\<open>fun\<close> was
  evaluated. Called with a number of arguments other than the number of names, that
  function fails with the TypeError \<^verbatim>\<open>Wrong number of arguments\<close>. Called with as many
  arguments as names, it evaluates the body in a new scope object and returns that
  outcome. The prototype of the new scope is the scope the function holds (the scope of
  the caller does not enter the call), the new scope binds each parameter name to the
  argument at its position (a name that occurs twice keeps the argument of its last
  occurrence) and binds no other name, and no other scope object changes. So
  \<^verbatim>\<open>fun(a, fun(b, +(a,b)))(3)(4)\<close> evaluates to 7 under every bound from 5 on; and
  a function \<^verbatim>\<open>f\<close> that returns \<^verbatim>\<open>x\<close>, called from inside a function whose parameter
  \<^verbatim>\<open>x\<close> is 2, returns the 1 that \<^verbatim>\<open>x\<close> is bound to where \<^verbatim>\<open>f\<close> was made.
\<close>

theorem fun_form_closure:
  "evaluate (Suc n) (Apply (Identifier ''fun'') (map Identifier params @ [body])) scope st
     = (Inr (Closure params body scope), st) \<and>
   (length arguments \<noteq> length params \<longrightarrow>
      call_function ev (Closure params body scope) arguments st' =
        (Inl (TypeError ''Wrong number of arguments''), st')) \<and>
   (length arguments = length params \<longrightarrow>
      (\<exists>st2. call_function ev (Closure params body scope) arguments st' =
               ev body (fresh st') st2 \<and>
         parent (heap st2 (fresh st')) = Some scope \<and>
         (\<forall>i<length params. params ! i \<notin> set (drop (Suc i) params) \<longrightarrow>
              map_of (bindings (heap st2 (fresh st'))) (params ! i) = Some (arguments ! i)) \<and>
         (\<forall>x. x \<notin> set params \<longrightarrow> map_of (bindings (heap st2 (fresh st'))) x = None) \<and>
         (\<forall>a. a \<noteq> fresh st' \<longrightarrow> heap st2 a = heap st' a) \<and>
         fresh st2 = Suc (fresh st') \<and> console st2 = console st')) \<and>
   fst (run (5 + k) ''fun(a, fun(b, +(a,b)))(3)(4)'' (initial_state h)) = Inr (Num 7) \<and>
   fst (run (6 + k) ''do(define(x, 1), define(f, fun(x)), define(g, fun(x, f())), g(2))''
          (initial_state h)) = Inr (Num 1)"
proof -
  have "fst (run 6 ''do(define(x, 1), define(f, fun(x)), define(g, fun(x, f())), g(2))''
          (initial_state h)) = Inr (Num 1)"
    by code_simp
  then have 5: "fst (run (6 + k) ''do(define(x, 1), define(f, fun(x)), define(g, fun(x, f())), g(2))''
          (initial_state h)) = Inr (Num 1)"
    by (subst run_from) simp_all
  have c: "fst (run 5 ''fun(a, fun(b, +(a,b)))(3)(4)'' (initial_state h)) = Inr (Num 7)"
    by code_simp
  then have 4: "fst (run (5 + k) ''fun(a, fun(b, +(a,b)))(3)(4)'' (initial_state h)) = Inr (Num 7)"
    by (subst run_from) simp_all
  have "list_all is_identifier (map Identifier params)"
    by (induction params) auto
  then have 1: "evaluate (Suc n) (Apply (Identifier ''fun'') (map Identifier params @ [body])) scope st
     = (Inr (Closure params body scope), st)"
    by (simp add: specialForms_def specialForms_fun_def map_name_of_Identifier)
  have 2: "length arguments \<noteq> length params \<longrightarrow>
      call_function ev (Closure params body scope) arguments st' =
        (Inl (TypeError ''Wrong number of arguments''), st')"
    by simp
  have 3: "length arguments = length params \<longrightarrow>
      (\<exists>st2. call_function ev (Closure params body scope) arguments st' =
               ev body (fresh st') st2 \<and>
         parent (heap st2 (fresh st')) = Some scope \<and>
         (\<forall>i<length params. params ! i \<notin> set (drop (Suc i) params) \<longrightarrow>
              map_of (bindings (heap st2 (fresh st'))) (params ! i) = Some (arguments ! i)) \<and>
         (\<forall>x. x \<notin> set params \<longrightarrow> map_of (bindings (heap st2 (fresh st'))) x = None) \<and>
         (\<forall>a. a \<noteq> fresh st' \<longrightarrow> heap st2 a = heap st' a) \<and>
         fresh st2 = Suc (fresh st') \<and> console st2 = console st')"
  proof
    assume len: "length arguments = length params"
    let ?l = "fresh st'"
    let ?s1 = "snd (Object_create (Some scope) st')"
    let ?s2 = "bind_params ?l params arguments ?s1"
    have oc: "Object_create (Some scope) st' = (?l, ?s1)" by (simp add: Object_create_def)
    have s1: "heap ?s1 ?l = \<lparr>bindings = [], parent = Some scope\<rparr>"
      "\<And>a. a \<noteq> ?l \<Longrightarrow> heap ?s1 a = heap st' a"
      "fresh ?s1 = Suc ?l" "console ?s1 = console st'"
      by (simp_all add: Object_create_def)
    have call: "call_function ev (Closure params body scope) arguments st' = ev body ?l ?s2"
      using len by (simp add: Object_create_def)
    have p: "parent (heap ?s2 ?l) = Some scope"
      using bind_params_frame[of ?l params arguments ?s1 ?l] s1(1) by simp
    have b: "\<forall>i<length params. params ! i \<notin> set (drop (Suc i) params) \<longrightarrow>
              map_of (bindings (heap ?s2 ?l)) (params ! i) = Some (arguments ! i)"
      using bind_params_lookup[OF len] by blast
    have n: "\<forall>x. x \<notin> set params \<longrightarrow> map_of (bindings (heap ?s2 ?l)) x = None"
      using bind_params_other[of _ params ?l arguments ?s1] s1(1) by simp
    have f: "\<forall>a. a \<noteq> ?l \<longrightarrow> heap ?s2 a = heap st' a"
      using bind_params_frame[of ?l params arguments ?s1] s1(2) by simp
    have r: "fresh ?s2 = Suc ?l" "console ?s2 = console st'"
      using bind_params_frame[of ?l params arguments ?s1 ?l] s1(3,4) by simp_all
    from call p b n f r show "\<exists>st2. call_function ev (Closure params body scope) arguments st' =
               ev body (fresh st') st2 \<and>
         parent (heap st2 (fresh st')) = Some scope \<and>
         (\<forall>i<length params. params ! i \<notin> set (drop (Suc i) params) \<longrightarrow>
              map_of (bindings (heap st2 (fresh st'))) (params ! i) = Some (arguments ! i)) \<and>
         (\<forall>x. x \<notin> set params \<longrightarrow> map_of (bindings (heap st2 (fresh st'))) x = None) \<and>
         (\<forall>a. a \<noteq> fresh st' \<longrightarrow> heap st2 a = heap st' a) \<and>
         fresh st2 = Suc (fresh st') \<and> console st2 = console st'"
      by (intro exI[of _ ?s2]) simp
  qed
  from 1 2 3 4 5 show ?thesis by blast
qed

theorem fun_form_closure_witness:
  "length [Num 3] \<noteq> length [''a'', ''b''] \<and>
   call_function (evaluate 1) (Closure [''a'', ''b''] (Identifier ''a'') 0) [Num 3] (initial_state no_answers) =
     (Inl (TypeError ''Wrong number of arguments''), (initial_state no_answers)) \<and>
   length [Num 3] = length [''a''] \<and>
   [''a''] ! 0 \<notin> set (drop (Suc 0) [''a'']) \<and>
   fst (call_function (evaluate 1) (Closure [''a''] (Identifier ''a'') 0) [Num 3] (initial_state no_answers))
     = Inr (Num 3)"
proof -
  have h1: "length [Num 3] \<noteq> length [''a'', ''b'']" by simp
  have h2: "length [Num 3] = length [''a'']" by simp
  have h3: "\<forall>i<length [''a'']. [''a''] ! i \<notin> set (drop (Suc i) [''a''])" by simp
  from fun_form_closure[where arguments="[Num 3]" and params="[''a'', ''b'']"
      and ev="evaluate 1" and body="Identifier ''a''" and scope=0 and st'="initial_state no_answers"] h1
  have a: "call_function (evaluate 1) (Closure [''a'', ''b''] (Identifier ''a'') 0) [Num 3] (initial_state no_answers) =
     (Inl (TypeError ''Wrong number of arguments''), (initial_state no_answers))" by blast
  from fun_form_closure[where arguments="[Num 3]" and params="[''a'']"
      and ev="evaluate 1" and body="Identifier ''a''" and scope=0 and st'="initial_state no_answers"] h2
  obtain st2 where c: "call_function (evaluate 1) (Closure [''a''] (Identifier ''a'') 0) [Num 3] (initial_state no_answers)
         = evaluate 1 (Identifier ''a'') (fresh (initial_state no_answers)) st2"
    and b: "\<forall>i<length [''a'']. [''a''] ! i \<notin> set (drop (Suc i) [''a'']) \<longrightarrow>
              map_of (bindings (heap st2 (fresh (initial_state no_answers)))) ([''a''] ! i) = Some ([Num 3] ! i)"
    by blast
  from b have "map_of (bindings (heap st2 (fresh (initial_state no_answers)))) ''a'' = Some (Num 3)" by simp
  then have "fst (evaluate 1 (Identifier ''a'') (fresh (initial_state no_answers)) st2) = Inr (Num 3)"
    by (simp add: get_property.simps)
  with c have "fst (call_function (evaluate 1) (Closure [''a''] (Identifier ''a'') 0) [Num 3] (initial_state no_answers))
     = Inr (Num 3)" by simp
  with h1 h2 a show ?thesis by simp
qed

section \<open>A run and the scope objects that exist\<close>











lemma extends_fresh: "extends N st st' \<Longrightarrow> fresh st \<le> fresh st'"
  by (simp add: extends_def)



lemma state_update_inv [simp]:
  "run_inv N (st\<lparr>ticks := t\<rparr>) = run_inv N st"
  "run_inv N (st\<lparr>console := c\<rparr>) = run_inv N st"
  "run_inv N (st\<lparr>host_reads := k\<rparr>) = run_inv N st"
  by (simp_all add: run_inv_def)


subsection \<open>The count of reads never falls\<close>

lemma set_property_reads [simp]: "host_reads (set_property a x v st) = host_reads st"
  by (simp add: set_property_def)

lemma Object_create_reads [simp]: "host_reads (snd (Object_create p st)) = host_reads st"
  by (simp add: Object_create_def)

lemma bind_params_reads [simp]: "host_reads (bind_params l ps vs st) = host_reads st"
proof (induction ps arbitrary: vs st)
  case Nil
  show ?case by simp
next
  case (Cons p ps)
  then show ?case by (cases vs) simp_all
qed



text \<open>
  Only \<^verbatim>\<open>element\<close> counts, and it counts exactly when its first argument is not
  \<^verbatim>\<open>undefined\<close> and its second is neither an index nor a name that names no property
  nor \<^verbatim>\<open>length\<close>.
\<close>

lemma js_element_counts:
  "host_reads (snd (js_element a n st)) = host_reads st \<longleftrightarrow>
     a = Undefined \<or> key_index n \<noteq> None \<or> names_no_property n \<or> n = Str ''length''"
  by (simp add: js_element_def split: option.splits)

lemma native_counts:
  "f \<noteq> ''element'' \<Longrightarrow> host_reads (snd (native f vs st)) = host_reads st"
  by (simp add: native_def host_result_def split: option.splits)








subsection \<open>A run without such a read\<close>


























end
